theory Spec2Isabelle
  imports Complex_Main "HOL-Library.Sublist" "HOL-Library.Multiset" "HOL-Library.Product_Lexorder"
begin

section \<open>Python values\<close>

subsection \<open>Floats\<close>

text \<open>
  A Python float is an IEEE binary64 number. The model keeps the finite ones as exact
  rationals and rounds every arithmetic result to 53 significant bits, to nearest with ties
  to even, as the hardware does. The exponent range is left unbounded: overflow to
  infinity, subnormal numbers, the sign of zero and NaN are not modelled, so prices are
  finite numbers throughout. \<open>bit_length\<close> is Python's \<open>int.bit_length\<close>.
\<close>

function bit_length :: "int \<Rightarrow> nat" where
  "bit_length n = (if n \<le> 0 then 0 else Suc (bit_length (n div 2)))"
  by pat_completeness auto
termination
  by (relation "measure nat") auto

declare bit_length.simps [simp del]

text \<open>\<open>round_div a b\<close> is \<open>a / b\<close> rounded to the nearest integer, ties to even, for \<open>b > 0\<close>.\<close>

definition round_div :: "int \<Rightarrow> int \<Rightarrow> int" where
  "round_div a b =
     (let f = a div b; r = a mod b
      in if 2 * r < b then f
         else if b < 2 * r then f + 1
         else if even f then f else f + 1)"

definition round_half_even :: "rat \<Rightarrow> int" where
  "round_half_even x = (case quotient_of x of (a, b) \<Rightarrow> round_div a b)"

text \<open>
  \<open>rnd q\<close> is the float nearest to \<open>q\<close>. For \<open>q = a / b\<close> in lowest terms, \<open>e\<close> is the
  exponent with \<open>2^e \<le> \<bar>q\<bar> < 2^(e+1)\<close>, found from the bit lengths of \<open>a\<close> and \<open>b\<close>; the
  significand is \<open>q\<close> scaled by \<open>2^(52-e)\<close> and rounded to an integer.
\<close>

definition rnd :: "rat \<Rightarrow> rat" where
  "rnd q =
     (case quotient_of q of
        (a, b) \<Rightarrow>
          if a = 0 then 0
          else
            (let k = int (bit_length \<bar>a\<bar>) - int (bit_length b);
                 e = (if (if 0 \<le> k then b * 2 ^ nat k \<le> \<bar>a\<bar> else b \<le> \<bar>a\<bar> * 2 ^ nat (- k))
                      then k else k - 1);
                 s = 52 - e
             in if 0 \<le> s then of_int (round_div (a * 2 ^ nat s) b) / of_int (2 ^ nat s)
                else of_int (round_div a (b * 2 ^ nat (- s)) * 2 ^ nat (- s))))"

definition fadd :: "rat \<Rightarrow> rat \<Rightarrow> rat" where
  "fadd a b = rnd (a + b)"

definition fsub :: "rat \<Rightarrow> rat \<Rightarrow> rat" where
  "fsub a b = rnd (a - b)"

definition fmul :: "rat \<Rightarrow> rat \<Rightarrow> rat" where
  "fmul a b = rnd (a * b)"

text \<open>
  Float division; Python raises ZeroDivisionError on a zero divisor, and every division
  of the analyzer is guarded by a test that the divisor is positive.
\<close>

definition fdiv :: "rat \<Rightarrow> rat \<Rightarrow> rat" where
  "fdiv a b = rnd (a / b)"

text \<open>\<open>int(x)\<close> of a float truncates toward zero.\<close>

definition py_trunc :: "rat \<Rightarrow> int" where
  "py_trunc x = (if 0 \<le> x then \<lfloor>x\<rfloor> else \<lceil>x\<rceil>)"

subsection \<open>Strings\<close>

text \<open>
  Strings are lists of 8-bit characters; the case mappings, the white space of
  \<open>str.strip\<close> and the classes \<open>\d\<close> and \<open>\w\<close> of the regular expressions are the
  ASCII ones. A character is its eight bits, lowest first. A letter has the bits 6 and 7
  \<open>10\<close>, its position 1..26 in the alphabet in the bits 0 to 4, and the bit 5 set when
  it is a small letter: the case mappings set or clear that bit.
\<close>

definition letter_position :: "bool \<Rightarrow> bool \<Rightarrow> bool \<Rightarrow> bool \<Rightarrow> bool \<Rightarrow> bool" where
  "letter_position b0 b1 b2 b3 b4 =
     ((b0 \<or> b1 \<or> b2 \<or> b3 \<or> b4) \<and> \<not> (b4 \<and> b3 \<and> (b2 \<or> (b1 \<and> b0))))"

fun lower_char :: "char \<Rightarrow> char" where
  "lower_char (Char b0 b1 b2 b3 b4 b5 b6 b7) =
     (if \<not> b7 \<and> b6 \<and> \<not> b5 \<and> letter_position b0 b1 b2 b3 b4
      then Char b0 b1 b2 b3 b4 True b6 b7
      else Char b0 b1 b2 b3 b4 b5 b6 b7)"

fun upper_char :: "char \<Rightarrow> char" where
  "upper_char (Char b0 b1 b2 b3 b4 b5 b6 b7) =
     (if \<not> b7 \<and> b6 \<and> b5 \<and> letter_position b0 b1 b2 b3 b4
      then Char b0 b1 b2 b3 b4 False b6 b7
      else Char b0 b1 b2 b3 b4 b5 b6 b7)"

definition lower :: "string \<Rightarrow> string" where
  "lower s = map lower_char s"

definition upper :: "string \<Rightarrow> string" where
  "upper s = map upper_char s"

text \<open>White space is the characters 9 to 13 and 28 to 32.\<close>

definition is_space :: "char \<Rightarrow> bool" where
  "is_space c =
     (c \<in> set [CHR 0x09, CHR 0x0A, CHR 0x0B, CHR 0x0C, CHR 0x0D,
                CHR 0x1C, CHR 0x1D, CHR 0x1E, CHR 0x1F, CHR '' ''])"

definition is_digit :: "char \<Rightarrow> bool" where
  "is_digit c = (c \<in> set ''0123456789'')"

definition is_word_char :: "char \<Rightarrow> bool" where
  "is_word_char c =
     (c \<in> set ''abcdefghijklmnopqrstuvwxyzABCDEFGHIJKLMNOPQRSTUVWXYZ0123456789_'')"

definition strip :: "string \<Rightarrow> string" where
  "strip s = rev (dropWhile is_space (rev (dropWhile is_space s)))"

text \<open>\<open>py_in s t\<close> is Python's \<open>s in t\<close> on strings: \<open>s\<close> occurs in \<open>t\<close>.\<close>

fun py_in :: "string \<Rightarrow> string \<Rightarrow> bool" where
  "py_in s [] = (s = [])"
| "py_in s (c # cs) = (prefix s (c # cs) \<or> py_in s cs)"

definition endswith :: "string \<Rightarrow> string \<Rightarrow> bool" where
  "endswith s e = suffix e s"

text \<open>\<open>s.replace(" ", "")\<close>.\<close>

definition remove_spaces :: "string \<Rightarrow> string" where
  "remove_spaces s = filter (\<lambda>c. c \<noteq> CHR '' '') s"

text \<open>The character of a digit \<open>0 \<le> n < 10\<close>.\<close>

definition digit_char :: "int \<Rightarrow> char" where
  "digit_char n = ''0123456789'' ! nat n"

text \<open>The decimal digits of an integer that is not negative.\<close>

function show_nat :: "int \<Rightarrow> string" where
  "show_nat n = (if n < 10 then [digit_char n] else show_nat (n div 10) @ [digit_char (n mod 10)])"
  by pat_completeness auto
termination
  by (relation "measure nat") auto

declare show_nat.simps [simp del]

definition show_int :: "int \<Rightarrow> string" where
  "show_int i = (if i < 0 then CHR ''-'' # show_nat (- i) else show_nat i)"

text \<open>
  \<open>fmt2 x\<close> is the format \<open>f"{x:.2f}"\<close>: the exact value of the float rounded to two
  decimals, ties to even.
\<close>

definition fmt2 :: "rat \<Rightarrow> string" where
  "fmt2 x =
     (let n = round_half_even (\<bar>x\<bar> * 100)
      in (if x < 0 then ''-'' else '''') @ show_nat (n div 100) @ ''.'' @
         [digit_char (n mod 100 div 10), digit_char (n mod 10)])"

definition digit_val :: "char \<Rightarrow> int" where
  "digit_val c = of_char c - 48"

definition digits_val :: "string \<Rightarrow> int" where
  "digits_val ds = foldl (\<lambda>acc c. 10 * acc + digit_val c) 0 ds"

text \<open>
  The pattern \<open>_RE_NUM = (\d+(?:\.\d+)?)\<close>. \<open>re_num_match\<close> is \<open>_RE_NUM.match\<close>: the match
  at the start of the text, as the pair of its integer and fraction digits, with the rest
  of the text after the match (\<open>u[m.end():]\<close>). \<open>re_num_search\<close> is \<open>_RE_NUM.search\<close>:
  the leftmost match, which starts at the first digit.
\<close>

definition re_num_match :: "string \<Rightarrow> ((string \<times> string) \<times> string) option" where
  "re_num_match u =
     (let ds = takeWhile is_digit u; r = dropWhile is_digit u
      in if ds = [] then None
         else (case r of
                 [] \<Rightarrow> Some ((ds, []), r)
               | c # r' \<Rightarrow>
                   if c = CHR ''.'' \<and> takeWhile is_digit r' \<noteq> []
                   then Some ((ds, takeWhile is_digit r'), dropWhile is_digit r')
                   else Some ((ds, []), r)))"

definition re_num_search :: "string \<Rightarrow> ((string \<times> string) \<times> string) option" where
  "re_num_search u = re_num_match (dropWhile (\<lambda>c. \<not> is_digit c) u)"

text \<open>\<open>float(m.group(1))\<close>: the decimal numeral read as a float, correctly rounded.\<close>

definition float_of_group :: "string \<times> string \<Rightarrow> rat" where
  "float_of_group g =
     (case g of (ds, fs) \<Rightarrow> rnd (of_int (digits_val ds) + of_int (digits_val fs) / 10 ^ length fs))"

subsection \<open>JSON values\<close>

text \<open>
  The fields of a deal that the analyzer tests with \<open>isinstance\<close> or converts hold a JSON
  scalar: \<open>null\<close>, a boolean, an integer, a float or text. \<open>JFloat x\<close> holds the float
  \<open>x\<close>; the literal \<open>4.99\<close> of a JSON file is read as \<open>JFloat (rnd (499 / 100))\<close>. Arrays and objects in
  these fields are outside the model.
\<close>

datatype jval = JNone | JBool bool | JInt int | JFloat rat | JStr string

text \<open>\<open>isinstance(v, (int, float))\<close>; a Python \<open>bool\<close> is an \<open>int\<close>.\<close>

fun is_number :: "jval \<Rightarrow> bool" where
  "is_number (JBool b) = True"
| "is_number (JInt i) = True"
| "is_number (JFloat q) = True"
| "is_number v = False"

text \<open>The exact numeric value of a number, as Python's mixed comparisons see it.\<close>

fun num_value :: "jval \<Rightarrow> rat" where
  "num_value (JBool b) = (if b then 1 else 0)"
| "num_value (JInt i) = of_int i"
| "num_value (JFloat q) = q"
| "num_value v = 0"

text \<open>\<open>float(v)\<close> of a number: an integer is rounded to the nearest float.\<close>

fun float_value :: "jval \<Rightarrow> rat" where
  "float_value (JBool b) = (if b then 1 else 0)"
| "float_value (JInt i) = rnd (of_int i)"
| "float_value (JFloat q) = q"
| "float_value v = 0"

text \<open>Truthiness of a value, as in \<open>v or default\<close>.\<close>

fun truthy :: "jval \<Rightarrow> bool" where
  "truthy JNone = False"
| "truthy (JBool b) = b"
| "truthy (JInt i) = (i \<noteq> 0)"
| "truthy (JFloat q) = (q \<noteq> 0)"
| "truthy (JStr s) = (s \<noteq> [])"

definition pow10 :: "int \<Rightarrow> rat" where
  "pow10 e = (if 0 \<le> e then 10 ^ nat e else 1 / 10 ^ nat (- e))"

text \<open>
  \<open>float(text)\<close> and \<open>int(text)\<close> on a decimal numeral with optional sign, fraction and
  exponent, surrounded by white space; \<open>None\<close> is Python's ValueError. The texts
  \<open>inf\<close> and \<open>nan\<close> and digit-grouping underscores are not modelled.
\<close>

definition split_sign :: "string \<Rightarrow> bool \<times> string" where
  "split_sign s =
     (case s of
        [] \<Rightarrow> (False, s)
      | c # r \<Rightarrow> if c = CHR ''-'' then (True, r) else if c = CHR ''+'' then (False, r) else (False, s))"

definition exponent_of :: "string \<Rightarrow> int option" where
  "exponent_of r =
     (case r of
        [] \<Rightarrow> Some 0
      | c # r' \<Rightarrow>
          if c = CHR ''e'' \<or> c = CHR ''E''
          then (case split_sign r' of
                  (neg, ds) \<Rightarrow>
                    if ds \<noteq> [] \<and> list_all is_digit ds
                    then Some (if neg then - digits_val ds else digits_val ds)
                    else None)
          else None)"

definition float_of_text :: "string \<Rightarrow> rat option" where
  "float_of_text t =
     (case split_sign (strip t) of
        (neg, s1) \<Rightarrow>
          let ds = takeWhile is_digit s1;
              r1 = dropWhile is_digit s1;
              fs = (case r1 of [] \<Rightarrow> [] | c # r \<Rightarrow> if c = CHR ''.'' then takeWhile is_digit r else []);
              r2 = (case r1 of [] \<Rightarrow> [] | c # r \<Rightarrow> if c = CHR ''.'' then dropWhile is_digit r else r1)
          in if ds = [] \<and> fs = [] then None
             else (case exponent_of r2 of
                     None \<Rightarrow> None
                   | Some e \<Rightarrow>
                       let m = of_int (digits_val ds) + of_int (digits_val fs) / 10 ^ length fs
                       in Some (rnd ((if neg then - m else m) * pow10 e))))"

definition int_of_text :: "string \<Rightarrow> int option" where
  "int_of_text t =
     (case split_sign (strip t) of
        (neg, ds) \<Rightarrow>
          if ds \<noteq> [] \<and> list_all is_digit ds
          then Some (if neg then - digits_val ds else digits_val ds)
          else None)"

text \<open>\<open>float(v)\<close> and \<open>int(v)\<close> for a value that is not \<open>None\<close>; \<open>None\<close> is the exception.\<close>

fun py_float :: "jval \<Rightarrow> rat option" where
  "py_float JNone = None"
| "py_float (JStr s) = float_of_text s"
| "py_float v = Some (float_value v)"

fun py_int :: "jval \<Rightarrow> int option" where
  "py_int JNone = None"
| "py_int (JStr s) = int_of_text s"
| "py_int (JFloat q) = Some (py_trunc q)"
| "py_int (JInt i) = Some i"
| "py_int (JBool b) = Some (if b then 1 else 0)"

text \<open>
  \<open>str(v)\<close> as the analyzer uses it in the key of the deduplication. The text of a float
  is kept as the float: \<open>repr\<close> gives different floats different texts, none of them the
  text of \<open>None\<close>, of a boolean or of an integer. A text field that spells out the
  \<open>repr\<close> of a float is not identified with that float.
\<close>

datatype pytext = Text string | FloatRepr rat

fun py_str :: "jval \<Rightarrow> pytext" where
  "py_str JNone = Text ''None''"
| "py_str (JBool b) = Text (if b then ''True'' else ''False'')"
| "py_str (JInt i) = Text (show_int i)"
| "py_str (JFloat q) = FloatRepr q"
| "py_str (JStr s) = Text s"

text \<open>Equality of two values as \<open>==\<close> and set membership see it: numbers compare by value.\<close>

definition py_eq :: "jval \<Rightarrow> jval \<Rightarrow> bool" where
  "py_eq a b = (if is_number a \<and> is_number b then num_value a = num_value b else a = b)"

section \<open>Data model\<close>

text \<open>
  \<open>PriceDict\<close> and \<open>DealDict\<close>. A key that is absent and a key that holds \<open>None\<close> read
  the same through \<open>dict.get\<close>, so both are \<open>None\<close> (\<open>JNone\<close>). The last four fields of
  a deal are the keys that the multibuy override sets on its copy. The keys of a deal
  that the analyzer never reads are carried along unchanged and left out.
\<close>

record multibuy_dict =
  per_unit_cost :: jval
  details_quantity_required :: jval
  total_cost :: jval
  details_format :: "string option"

record price_dict =
  amount :: jval
  unit :: "string option"
  display :: "string option"
  is_multibuy :: "bool option"
  multibuy_details :: "multibuy_dict option"
  original_price :: jval
  savings_amount :: jval
  savings_percent :: jval

record deal_dict =
  deal_id :: jval
  page :: jval
  retailer :: "string option"
  product_name :: "string option"
  brand :: "string option"
  category :: "string option"
  price :: "price_dict option"
  size_quantity :: "string option"
  container_type :: "string option"
  special_notes :: "string option"
  format :: "string option"
  quantity_required :: "int option"
  multibuy_total_cost :: "rat option"
  multibuy_format :: "string option"

text \<open>A scored deal: the copy of the (override) deal with the derived fields.\<close>

record scored_deal =
  deal_copy :: deal_dict
  engagement_score :: int
  category_group :: string
  is_priority :: bool
  unit_price_amount :: "rat option"
  unit_price_unit :: "string option"
  unit_price_display :: "string option"

record priority_rule =
  rule_keywords :: "string list"
  exclude_keywords :: "string list"
  max_price_per_lb :: rat
  rule_category :: "string list"
  bonus_score :: int

text \<open>
  \<open>DealAnalyzerConfig\<close>. The dictionaries are association lists in insertion order; the
  keyword sets are lists, of which the analyzer only asks whether some member occurs in
  a text.
\<close>

record config =
  store_brands :: "string list"
  excluded_categories :: "string list"
  supplement_keywords :: "string list"
  excluded_products :: "string list"
  priority_deals :: "(string \<times> priority_rule) list"
  premium_keywords :: "string list"
  viral_keywords :: "string list"
  major_brands :: "string list"
  category_weights :: "(string \<times> int) list"
  dedupe :: bool
  balance_categories :: bool

record analyzer =
  retailer_filter :: "string option"
  config :: config

text \<open>\<open>s or ""\<close> on an optional string, and \<open>deal.get("price") or {}\<close>.\<close>

definition or_empty :: "string option \<Rightarrow> string" where
  "or_empty s = (case s of None \<Rightarrow> [] | Some t \<Rightarrow> t)"

definition empty_price :: price_dict where
  "empty_price =
     \<lparr>amount = JNone, unit = None, display = None, is_multibuy = None, multibuy_details = None,
      original_price = JNone, savings_amount = JNone, savings_percent = JNone\<rparr>"

definition price_of :: "deal_dict \<Rightarrow> price_dict" where
  "price_of d = (case price d of None \<Rightarrow> empty_price | Some p \<Rightarrow> p)"

section \<open>Multibuy override\<close>

text \<open>
  \<open>_extract_multibuy_details\<close>: each field is converted on its own, and a conversion that
  raises gives \<open>None\<close> for that field only.
\<close>

definition extract_multibuy_details ::
  "deal_dict \<Rightarrow> rat option \<times> int option \<times> rat option \<times> string option" where
  "extract_multibuy_details d =
     (let p = price_of d
      in if is_multibuy p \<noteq> Some True then (None, None, None, None)
         else (case multibuy_details p of
                 None \<Rightarrow> (None, None, None, None)
               | Some details \<Rightarrow>
                   (py_float (per_unit_cost details),
                    py_int (details_quantity_required details),
                    py_float (total_cost details),
                    details_format details)))"

text \<open>
  \<open>_apply_multibuy_overrides\<close>: the deal itself when the per-unit cost or the required
  quantity is missing, otherwise a copy whose price holds the per-unit cost.
\<close>

definition apply_multibuy_overrides :: "deal_dict \<Rightarrow> deal_dict" where
  "apply_multibuy_overrides d =
     (case extract_multibuy_details d of
        (per_unit, qty_req, total_f, fmt) \<Rightarrow>
          (case per_unit of
             None \<Rightarrow> d
           | Some pu \<Rightarrow>
               (case qty_req of
                  None \<Rightarrow> d
                | Some q \<Rightarrow>
                    let p = price_of d;
                        u = (if or_empty (unit p) = [] then ''ea'' else or_empty (unit p));
                        unit_disp = (if lower u \<in> set [''ea'', ''each''] then ''ea'' else u);
                        p' = p\<lparr>amount := JFloat pu,
                               display := Some (''$'' @ fmt2 pu @ '' '' @ unit_disp)\<rparr>
                    in d\<lparr>price := Some p',
                         quantity_required := Some q,
                         format := (if or_empty fmt \<noteq> [] \<and> or_empty (format d) = [] then fmt
                                    else format d),
                         multibuy_total_cost := total_f,
                         multibuy_format := fmt\<rparr>)))"

section \<open>Unit normalisation\<close>

definition parse_display_unit :: "string \<Rightarrow> string option" where
  "parse_display_unit display' =
     (let d = lower display'
      in if py_in ''per lb'' d \<or> py_in ''/lb'' d then Some ''lb''
         else if py_in ''per pound'' d then Some ''lb''
         else if py_in ''per oz'' d \<or> py_in ''/oz'' d then Some ''oz''
         else if py_in ''per fl oz'' d \<or> py_in ''per floz'' d \<or> py_in ''/fl oz'' d then Some ''floz''
         else if py_in ''each'' d \<and> py_in ''per'' d then Some ''each''
         else None)"

text \<open>The numeric-prefixed patterns of \<open>normalize_unit\<close>; \<open>None\<close> falls through.\<close>

definition numeric_prefixed :: "string \<Rightarrow> (string \<times> rat option \<times> string) option" where
  "numeric_prefixed u =
     (case re_num_match u of
        None \<Rightarrow> None
      | Some (g, rest) \<Rightarrow>
          let num = float_of_group g;
              tail = remove_spaces (strip rest)
          in if tail \<in> set [''lb'', ''lbs'', ''pound'', ''pounds''] then Some (''lb'', Some num, ''lb'')
             else if tail \<in> set [''oz''] then Some (''oz'', Some num, ''lb'')
             else if tail \<in> set [''floz'', ''fl.oz'', ''fl-oz'', ''fl oz'']
               then Some (''floz'', Some num, ''floz'')
             else if tail \<in> set [''count'', ''ct''] then Some (''count'', Some num, ''count'')
             else None)"

definition searched_number :: "string \<Rightarrow> rat option" where
  "searched_number u =
     (case re_num_search u of None \<Rightarrow> None | Some (g, rest) \<Rightarrow> Some (float_of_group g))"

definition normalize_unit :: "string option \<Rightarrow> string option \<Rightarrow> string \<times> rat option \<times> string" where
  "normalize_unit unit' display' =
     (let u0 = lower (strip (or_empty unit'));
          u = (if u0 = [] \<and> or_empty display' \<noteq> []
               then (case parse_display_unit (or_empty display') of None \<Rightarrow> u0 | Some inferred \<Rightarrow> inferred)
               else u0)
      in if u = [] then (''unknown'', None, ''unknown'')
         else if u \<in> set [''lb'', ''lbs'', ''pound'', ''pounds''] then (''lb'', Some 1, ''lb'')
         else (case numeric_prefixed u of
                 Some r \<Rightarrow> r
               | None \<Rightarrow>
                   if py_in ''floz'' u \<or> py_in ''fl oz'' u then (''floz'', searched_number u, ''floz'')
                   else if py_in ''count'' u \<or> u \<in> set [''ct''] then (''count'', searched_number u, ''count'')
                   else if u \<in> set [''each'', ''ea''] then (''each'', Some 1, ''each'')
                   else if u \<in> set [''pack'', ''bag'', ''pkg''] then (''each'', Some 1, ''each'')
                   else (''unknown'', None, ''unknown'')))"

text \<open>\<open>qty and qty > 0\<close> on an optional float.\<close>

definition qty_pos :: "rat option \<Rightarrow> bool" where
  "qty_pos qty = (case qty of None \<Rightarrow> False | Some q \<Rightarrow> q \<noteq> 0 \<and> 0 < q)"

definition qty_val :: "rat option \<Rightarrow> rat" where
  "qty_val qty = (case qty of None \<Rightarrow> 0 | Some q \<Rightarrow> q)"

text \<open>
  \<open>compute_unit_price\<close>. The guard \<open>math.isnan(float(amount))\<close> of the source is always
  false on the finite floats of the model. The chain of conditions below is the
  source's sequence of \<open>if ... return\<close> statements, read top down.
\<close>

definition compute_unit_price :: "deal_dict \<Rightarrow> rat option \<times> string option \<times> string option" where
  "compute_unit_price d0 =
     (let d = apply_multibuy_overrides d0;
          p = price_of d;
          a = amount p
      in if \<not> is_number a then (None, None, None)
         else
           (case normalize_unit (unit p) (display p) of
              (kind, qty, canonical) \<Rightarrow>
                let am = float_value a
                in if canonical = ''lb'' \<and> kind = ''lb'' \<and> qty_pos qty
                   then (let up = fdiv am (qty_val qty)
                         in (Some up, Some ''lb'', Some (''$'' @ fmt2 up @ ''/lb'')))
                   else if canonical = ''lb'' \<and> kind = ''oz'' \<and> qty_pos qty
                   then (let up = fdiv am (fdiv (qty_val qty) 16)
                         in (Some up, Some ''lb'', Some (''$'' @ fmt2 up @ ''/lb'')))
                   else if canonical = ''lb'' \<and> kind = ''lb'' \<and> (qty = None \<or> qty = Some 0)
                   then (Some am, Some ''lb'', Some (''$'' @ fmt2 am @ ''/lb''))
                   else if canonical = ''floz''
                   then (if qty_pos qty
                         then (let up = fdiv am (qty_val qty)
                               in (Some up, Some ''fl oz'', Some (''$'' @ fmt2 up @ ''/fl oz'')))
                         else (None, None, None))
                   else if canonical \<in> set [''each'', ''count''] \<and> qty_pos qty
                   then (let up = fdiv am (qty_val qty);
                             unit_label = (if canonical = ''each'' then ''each'' else ''count'')
                         in (Some up, Some unit_label,
                             Some (if unit_label = ''each'' then ''$'' @ fmt2 up @ '' ea''
                                   else ''$'' @ fmt2 up @ ''/'' @ unit_label)))
                   else if canonical \<in> set [''each'', ''count''] \<and> canonical = ''each''
                   then (Some am, Some ''each'', Some (''$'' @ fmt2 am @ '' ea''))
                   else (None, None, None)))"

section \<open>Exclusion\<close>

text \<open>
  A store-brand pattern is \<open>(?<!\w)b(?!\w)\<close> with \<open>re.IGNORECASE\<close>, for the stripped brand
  \<open>b\<close>; empty brands get no pattern. \<open>pattern_search b t\<close> is \<open>pat.search(t)\<close>: pattern and
  text are compared in lower case. \<open>brand_search b prev t\<close> looks for \<open>b\<close> in the rest
  \<open>t\<close> of the text, \<open>prev\<close> being the character in front of \<open>t\<close>: an occurrence counts
  when no word character stands in front of it or behind it.
\<close>

definition store_brand_patterns :: "config \<Rightarrow> string list" where
  "store_brand_patterns cfg = filter (\<lambda>b. b \<noteq> []) (map strip (store_brands cfg))"

fun brand_search :: "string \<Rightarrow> char option \<Rightarrow> string \<Rightarrow> bool" where
  "brand_search b prev [] = False"
| "brand_search b prev (c # cs) =
     (if prefix b (c # cs)
      then (if (case prev of None \<Rightarrow> False | Some x \<Rightarrow> is_word_char x)
            then brand_search b (Some c) cs
            else if (case drop (length b) (c # cs) of [] \<Rightarrow> False | x # xs \<Rightarrow> is_word_char x)
            then brand_search b (Some c) cs
            else True)
      else brand_search b (Some c) cs)"

definition pattern_search :: "string \<Rightarrow> string \<Rightarrow> bool" where
  "pattern_search b t = brand_search (lower b) None (lower t)"

definition any_in :: "string list \<Rightarrow> string \<Rightarrow> bool" where
  "any_in ks t = list_ex (\<lambda>k. py_in k t) ks"

definition get_exclusion_reason :: "analyzer \<Rightarrow> deal_dict \<Rightarrow> string option" where
  "get_exclusion_reason an d =
     (let cfg = config an;
          price_amount = amount (price_of d);
          category' = or_empty (category d);
          cat_u = upper category';
          product_name' = or_empty (product_name d);
          brand' = or_empty (brand d);
          combined_l = lower (product_name' @ '' '' @ brand');
          brand_l = strip (lower brand')
      in if \<not> is_number price_amount then Some ''missing_price_amount''
         else if num_value price_amount < 0 then Some ''invalid_negative_price''
         else if category' \<in> set (excluded_categories cfg) then Some ''excluded_category_alcohol''
         else if any_in [''ALCOHOL'', ''BEER'', ''WINE'', ''SPIRITS''] cat_u
           then Some ''excluded_category_alcohol''
         else if (py_in ''HEALTH'' cat_u \<or> py_in ''BEAUTY'' cat_u) \<and>
                 any_in (supplement_keywords cfg) (lower product_name')
           then Some ''excluded_supplement''
         else if list_ex (\<lambda>b. brand_l \<noteq> [] \<and> brand_l = lower b) (store_brands cfg)
           then Some ''excluded_store_brand''
         else if list_ex (\<lambda>b. pattern_search b combined_l) (store_brand_patterns cfg)
           then Some ''excluded_store_brand''
         else if any_in (excluded_products cfg) (lower product_name') \<and>
                 any_in [''MEAT'', ''DELI'', ''SEAFOOD''] cat_u
           then Some ''excluded_product_keyword''
         else if or_empty (retailer_filter an) \<noteq> [] \<and> retailer d \<noteq> retailer_filter an
           then Some ''filtered_out_by_retailer''
         else None)"

definition should_exclude :: "analyzer \<Rightarrow> deal_dict \<Rightarrow> bool" where
  "should_exclude an d = (get_exclusion_reason an d \<noteq> None)"

section \<open>Priority deals\<close>

text \<open>The four tests that the loop of \<open>is_priority_deal\<close> makes on one rule.\<close>

definition rule_accepts :: "priority_rule \<Rightarrow> string \<Rightarrow> string \<Rightarrow> rat \<Rightarrow> bool" where
  "rule_accepts criteria category' product_name' up =
     (category' \<in> set (rule_category criteria) \<and>
      \<not> max_price_per_lb criteria < up \<and>
      any_in (rule_keywords criteria) product_name' \<and>
      \<not> any_in (exclude_keywords criteria) product_name')"

definition is_priority_deal :: "analyzer \<Rightarrow> deal_dict \<Rightarrow> bool" where
  "is_priority_deal an d =
     (let product_name' = lower (or_empty (product_name d));
          category' = or_empty (category d)
      in (case compute_unit_price d of
            (unit_price_amount', unit_price_unit', disp) \<Rightarrow>
              (case unit_price_amount' of
                 None \<Rightarrow> False
               | Some up \<Rightarrow>
                   if unit_price_unit' \<noteq> Some ''lb'' then False
                   else list_ex (\<lambda>(name, criteria). rule_accepts criteria category' product_name' up)
                          (priority_deals (config an)))))"

text \<open>The second loop, of \<open>get_priority_bonus\<close>: the first rule with a keyword and no exclusion.\<close>

fun first_keyword_bonus :: "(string \<times> priority_rule) list \<Rightarrow> string \<Rightarrow> int" where
  "first_keyword_bonus [] product_name' = 0"
| "first_keyword_bonus ((name, criteria) # rules) product_name' =
     (if any_in (rule_keywords criteria) product_name' \<and>
         \<not> any_in (exclude_keywords criteria) product_name'
      then bonus_score criteria
      else first_keyword_bonus rules product_name')"

definition get_priority_bonus :: "analyzer \<Rightarrow> deal_dict \<Rightarrow> int" where
  "get_priority_bonus an d =
     (if \<not> is_priority_deal an d then 0
      else first_keyword_bonus (priority_deals (config an)) (lower (or_empty (product_name d))))"

section \<open>Scoring\<close>

text \<open>
  \<open>_effective_price_for_scoring\<close>. \<open>float(amount or 0.0)\<close> raises ValueError on a text that
  is not a numeral; \<open>None\<close> is that exception.
\<close>

definition effective_price_for_scoring :: "deal_dict \<Rightarrow> rat option" where
  "effective_price_for_scoring d =
     (let deal_eff = apply_multibuy_overrides d;
          a = amount (price_of deal_eff)
      in (case (if truthy a then py_float a else Some 0) of
            None \<Rightarrow> None
          | Some price_amount \<Rightarrow>
              (case compute_unit_price deal_eff of
                 (up, up_unit, disp) \<Rightarrow>
                   if up = None \<or> up_unit = None then Some price_amount else up)))"

definition price_tier :: "rat \<Rightarrow> int" where
  "price_tier price_eff =
     (if price_eff < 1 then 30
      else if price_eff \<le> rnd (299 / 100) then 20
      else if price_eff \<le> rnd (499 / 100) then 10
      else 0)"

definition round_number_bonus :: "deal_dict \<Rightarrow> int" where
  "round_number_bonus d =
     (let raw_amount = amount (price_of d)
      in if is_number raw_amount \<and>
            list_ex (\<lambda>ending. endswith (fmt2 (float_value raw_amount)) ending)
              [''0.99'', ''1.99'', ''2.49'', ''2.99'', ''4.99'', ''9.99'']
         then 8 else 0)"

definition multibuy_bonus :: "deal_dict \<Rightarrow> int" where
  "multibuy_bonus d = (if is_multibuy (price_of d) = Some True then 15 else 0)"

definition high_savings_bonus :: "deal_dict \<Rightarrow> int" where
  "high_savings_bonus d =
     (let savings_pct = savings_percent (price_of d)
      in if is_number savings_pct
         then (if 50 \<le> num_value savings_pct then 12
               else if 30 \<le> num_value savings_pct then 8 else 0)
         else 0)"

text \<open>
  \<open>calculate_viral_pricing_score\<close>: the four increments of \<open>score\<close>, in the source's
  order, and the final \<open>min(score, 30)\<close>.
\<close>

definition calculate_viral_pricing_score :: "deal_dict \<Rightarrow> int option" where
  "calculate_viral_pricing_score d =
     (case effective_price_for_scoring d of
        None \<Rightarrow> None
      | Some price_eff \<Rightarrow>
          Some (min (price_tier price_eff + round_number_bonus d + multibuy_bonus d +
                     high_savings_bonus d) 30))"

text \<open>\<open>int(min(20, max(0, (pct - 5) * (20 / 55))))\<close> on a float \<open>pct\<close>.\<close>

definition depth_of_percent :: "rat \<Rightarrow> int" where
  "depth_of_percent pct = py_trunc (min 20 (max 0 (fmul (fsub pct 5) (fdiv 20 55))))"

definition is_int_like :: "jval \<Rightarrow> bool" where
  "is_int_like v = (case v of JBool b \<Rightarrow> True | JInt i \<Rightarrow> True | _ \<Rightarrow> False)"

text \<open>
  \<open>(orig - amt) / orig * 100.0\<close>: on two integers the difference is exact and the
  quotient is the correctly rounded true division; otherwise the operands become floats.
\<close>

definition inferred_percent :: "jval \<Rightarrow> jval \<Rightarrow> rat" where
  "inferred_percent orig amt =
     (if is_int_like orig \<and> is_int_like amt
      then fmul (rnd ((num_value orig - num_value amt) / num_value orig)) 100
      else fmul (fdiv (fsub (float_value orig) (float_value amt)) (float_value orig)) 100)"

definition calculate_discount_depth :: "deal_dict \<Rightarrow> int" where
  "calculate_discount_depth d =
     (let p = price_of d;
          savings_pct = savings_percent p;
          orig = original_price p;
          amt = amount p
      in if is_number savings_pct then depth_of_percent (float_value savings_pct)
         else if is_number orig \<and> is_number amt \<and> 0 < num_value orig \<and> 0 \<le> num_value amt
           then depth_of_percent (inferred_percent orig amt)
         else 0)"

definition calculate_category_weight :: "analyzer \<Rightarrow> deal_dict \<Rightarrow> int" where
  "calculate_category_weight an d =
     (case map_of (category_weights (config an)) (or_empty (category d)) of
        None \<Rightarrow> 5
      | Some w \<Rightarrow> w)"

definition calculate_premium_value :: "analyzer \<Rightarrow> deal_dict \<Rightarrow> int" where
  "calculate_premium_value an d =
     (let combined = lower (or_empty (product_name d)) @ '' '' @ lower (or_empty (special_notes d))
                     @ '' '' @ lower (or_empty (brand d));
          savings_pct = savings_percent (price_of d)
      in if any_in (premium_keywords (config an)) combined then 25
         else if any_in [''doritos'', ''hershey'', ''outshine'', ''ben & jerry'', ''reese's''] combined
           then 20
         else if py_in ''organic'' combined then 18
         else if is_number savings_pct \<and> 30 \<le> num_value savings_pct then 15
         else 5)"

text \<open>
  The meal keyword \<open>entree\<close> is spelled with an e acute, which is outside ASCII: here the Latin-1
  character 233.
\<close>

definition calculate_social_appeal :: "analyzer \<Rightarrow> deal_dict \<Rightarrow> int" where
  "calculate_social_appeal an d =
     (let combined = lower (or_empty (product_name d)) @ '' '' @ lower (or_empty (special_notes d))
      in if any_in (viral_keywords (config an)) combined then 20
         else if any_in [''cotton candy'', ''dekopon'', ''sumo'', ''dumpling'', ''truffle'',
                         ''artisan'', ''heritage'', ''heirloom'', ''specialty'', ''gourmet''] combined
           then 18
         else if any_in [''chicken nugget'', ''drumstick'', ''popsicle'', ''fruit bar'',
                         ''cookie'', ''mac and cheese'', ''pizza'', ''lunchable''] combined
           then 12
         else if any_in [''entr'' @ [char_of (233 :: nat)] @ ''e'', ''meal'', ''dinner'',
                         ''ready to eat'', ''prepared''] combined
           then 10
         else if any_in [''party'', ''entertaining'', ''celebration'', ''game day''] combined
           then 15
         else 5)"

definition calculate_brand_recognition :: "analyzer \<Rightarrow> deal_dict \<Rightarrow> int" where
  "calculate_brand_recognition an d =
     (let combined = lower (or_empty (product_name d)) @ '' '' @ lower (or_empty (brand d))
      in if any_in (major_brands (config an)) combined then 10
         else if any_in [''boar's head'', ''tillamook'', ''kerrygold'', ''dave's killer''] combined
           then 8
         else 5)"

definition calculate_total_score :: "analyzer \<Rightarrow> deal_dict \<Rightarrow> int option" where
  "calculate_total_score an d =
     (case calculate_viral_pricing_score d of
        None \<Rightarrow> None
      | Some viral \<Rightarrow>
          Some (viral + calculate_discount_depth d + calculate_category_weight an d +
                calculate_premium_value an d + calculate_social_appeal an d +
                calculate_brand_recognition an d + get_priority_bonus an d))"

definition categorize_deal :: "deal_dict \<Rightarrow> string" where
  "categorize_deal d =
     (let category' = upper (or_empty (category d))
      in if py_in ''MEAT'' category' \<or> py_in ''SEAFOOD'' category' \<or> py_in ''DELI'' category'
         then ''Meat/Seafood''
         else if py_in ''PRODUCE'' category' then ''Produce''
         else ''Snacks/Other'')"

section \<open>The default configuration\<close>

definition default_priority_deals :: "(string \<times> priority_rule) list" where
  "default_priority_deals =
     [(''chicken_breast'',
       \<lparr>rule_keywords = [''chicken breast'', ''chicken thigh'', ''chicken thighs''],
        exclude_keywords = [''boneless skinless chicken breast meal'', ''rotisserie''],
        max_price_per_lb = 3,
        rule_category = [''MEAT'', ''Meat'', ''Meat & Seafood''],
        bonus_score = 30\<rparr>),
      (''steak'',
       \<lparr>rule_keywords = [''steak'', ''ribeye'', ''sirloin'', ''ny strip'', ''t-bone'',
                         ''porterhouse'', ''flank'', ''skirt'', ''filet''],
        exclude_keywords = [''salisbury'', ''patties'', ''burger''],
        max_price_per_lb = 10,
        rule_category = [''MEAT'', ''Meat'', ''Meat & Seafood''],
        bonus_score = 25\<rparr>),
      (''ground_beef'',
       \<lparr>rule_keywords = [''ground beef'', ''ground chuck'', ''hamburger''],
        exclude_keywords = [''patties'', ''burger patty'', ''ground turkey''],
        max_price_per_lb = 6,
        rule_category = [''MEAT'', ''Meat'', ''Meat & Seafood''],
        bonus_score = 20\<rparr>)]"

definition default_category_weights :: "(string \<times> int) list" where
  "default_category_weights =
     [(''MEAT'', 25), (''Meat'', 25), (''Meat & Seafood'', 25), (''SEAFOOD'', 25), (''Seafood'', 25),
      (''DELI'', 20), (''Deli'', 20),
      (''PRODUCE'', 25), (''Produce'', 25), (''Fresh Produce'', 25), (''Organic Produce'', 25),
      (''SNACKS'', 20), (''Snacks'', 20), (''BEVERAGES'', 20), (''Beverages'', 20), (''Drinks'', 20),
      (''FROZEN'', 15), (''Frozen'', 15), (''Frozen Foods'', 15), (''Ice Cream'', 18),
      (''PREPARED_FOODS'', 15), (''Prepared Foods'', 15), (''Ready to Eat'', 15),
      (''DAIRY_EGGS'', 12), (''Dairy'', 12), (''Dairy & Eggs'', 12),
      (''BAKERY'', 12), (''Bakery'', 12), (''Commercial Bakery'', 10), (''Fresh Bakery'', 12),
      (''PANTRY'', 10), (''Pantry'', 10), (''Grocery'', 10), (''Canned Goods'', 8),
      (''HOUSEHOLD'', 5), (''Household'', 5), (''Cleaning'', 5), (''Paper Products'', 5),
      (''HEALTH_BEAUTY'', 5), (''Health & Beauty'', 5), (''Personal Care'', 5),
      (''PET'', 5), (''Pet'', 5), (''Pet Supplies'', 5)]"

definition default_config :: config where
  "default_config =
     \<lparr>store_brands =
        [''Amazon Grocery'', ''Amazon Kitchen'', ''Amazon Fresh'',
         ''365 Brand'', ''365 by Whole Foods'', ''365 Everyday Value'',
         ''Kirkland'', ''Great Value'', ''Market Pantry'', ''Simple Truth'',
         ''O Organics'', ''Kroger'', ''Target'', ''Safeway SELECT'',
         ''First Street'',
         ''H-E-B'', ''Hill Country Fare'', ''Central Market'', ''Higher Harvest'', ''HEB'',
         ''Sprouts'', ''Real Root by Sprouts'', ''Sprouts Farmers Market'',
         ''Albertsons'', ''Vons'', ''Pavilions'', ''Ralphs'', ''Food Lion''],
      excluded_categories = [''Beer, Wine & Spirits'', ''ALCOHOL'', ''BEVERAGES_ALCOHOL''],
      supplement_keywords =
        [''supplement'', ''vitamin'', ''pill'', ''capsule'',
         ''tablet'', ''probiotic'', ''greens powder'', ''protein powder'',
         ''multivitamin'', ''omega-3'', ''turmeric'', ''ashwagandha'',
         ''collagen'', ''magnesium'', ''zinc'', ''elderberry''],
      excluded_products =
        [''hot dog'', ''hotdog'', ''hot dogs'', ''hotdogs'', ''franks'', ''wiener'', ''wieners''],
      priority_deals = default_priority_deals,
      premium_keywords =
        [''ribeye'', ''prime rib'', ''flank steak'', ''sirloin'', ''filet mignon'',
         ''ny strip'', ''porterhouse'', ''wagyu'', ''angus'', ''grass-fed'',
         ''organic chicken'', ''air-chilled'', ''heritage pork'',
         ''salmon'', ''atlantic salmon'', ''king salmon'', ''sockeye'',
         ''shrimp'', ''jumbo shrimp'', ''scallops'', ''crab'', ''lobster'',
         ''halibut'', ''sea bass'', ''ahi tuna'', ''swordfish'',
         ''honeycrisp'', ''cotton candy grape'', ''dekopon'', ''sumo citrus'',
         ''organic'', ''heirloom'', ''persimmon'', ''dragon fruit'',
         ''artisan'', ''specialty mushroom'', ''truffle''],
      viral_keywords =
        [''cotton candy'', ''party pack'', ''family size'', ''jumbo'', ''giant'',
         ''mega'', ''ultimate'', ''variety pack'', ''assorted'', ''party size'',
         ''super bowl'', ''game day'', ''tailgate'', ''celebration'',
         ''viral'', ''tiktok'', ''trending''],
      major_brands =
        [''doritos'', ''lays'', ''cheetos'', ''fritos'', ''ruffles'', ''tostitos'',
         ''pringles'', ''kettle'', ''popchips'', ''smartfood'', ''pirates booty'',
         ''coca-cola'', ''coke'', ''pepsi'', ''sprite'', ''mountain dew'',
         ''dr pepper'', ''7up'', ''canada dry'', ''schweppes'', ''crush'',
         ''capri sun'', ''gatorade'', ''powerade'', ''vitamin water'',
         ''hershey'', ''reese's'', ''kit kat'', ''m&m'', ''snickers'', ''twix'',
         ''milky way'', ''skittles'', ''starburst'', ''sour patch'', ''haribo'',
         ''ben & jerry'', ''breyer'', ''haagen-dazs'', ''talenti'', ''outshine'',
         ''drumstick'', ''klondike'', ''good humor'', ''magnum'',
         ''dannon'', ''chobani'', ''yoplait'', ''fage'', ''siggi'', ''oikos'',
         ''tillamook'', ''kerrygold'', ''organic valley'', ''horizon'',
         ''tyson'', ''perdue'', ''foster farms'', ''applegate'', ''hormel'',
         ''oscar mayer'', ''hillshire farm'', ''jimmy dean'', ''butterball'',
         ''kraft'', ''philadelphia'', ''velveeta'', ''barilla'', ''prego'',
         ''ragu'', ''newman's own'', ''rao's'', ''classico'', ''bertolli'',
         ''general mills'', ''kellogg'', ''quaker'', ''post'', ''nabisco'',
         ''oreo'', ''chips ahoy'', ''ritz'', ''triscuit'', ''wheat thins'',
         ''dave's killer bread'', ''artesano'', ''bimbo'',
         ''annie's'', ''stonyfield'', ''nature's path'', ''kashi'',
         ''amy's'', ''dr praeger'', ''gardein'', ''beyond meat''],
      category_weights = default_category_weights,
      dedupe = True,
      balance_categories = True\<rparr>"

text \<open>\<open>DealAnalyzer(retailer_filter)\<close> with the default configuration.\<close>

definition default_analyzer :: "string option \<Rightarrow> analyzer" where
  "default_analyzer rf = \<lparr>retailer_filter = rf, config = default_config\<rparr>"

section \<open>Selection\<close>

subsection \<open>Deduplication\<close>

definition dedupe_key ::
  "deal_dict \<Rightarrow> string \<times> string \<times> string \<times> string \<times> pytext \<times> string \<times> string \<times> pytext" where
  "dedupe_key d =
     (let p = price_of d
      in (upper (strip (or_empty (retailer d))),
          lower (strip (or_empty (product_name d))),
          upper (strip (or_empty (category d))),
          strip (or_empty (display p)),
          py_str (amount p),
          (case unit p of None \<Rightarrow> ''None'' | Some u \<Rightarrow> u),
          lower (strip (or_empty (size_quantity d))),
          py_str (page d)))"

text \<open>The loop of \<open>_dedupe_deals\<close>, with the set \<open>seen\<close> as a list.\<close>

fun dedupe_loop ::
  "(string \<times> string \<times> string \<times> string \<times> pytext \<times> string \<times> string \<times> pytext) list \<Rightarrow>
   deal_dict list \<Rightarrow> deal_dict list" where
  "dedupe_loop seen [] = []"
| "dedupe_loop seen (d # ds) =
     (if dedupe_key d \<in> set seen then dedupe_loop seen ds
      else d # dedupe_loop (dedupe_key d # seen) ds)"

definition dedupe_deals :: "analyzer \<Rightarrow> deal_dict list \<Rightarrow> deal_dict list" where
  "dedupe_deals an deals = (if \<not> dedupe (config an) then deals else dedupe_loop [] deals)"

subsection \<open>Scoring loop and tie-break key\<close>

text \<open>
  The body of the loop of \<open>analyze_deals\<close> builds the scored copy of a deal from the
  deal, its override copy and the score of the override copy.
\<close>

definition make_scored :: "analyzer \<Rightarrow> deal_dict \<Rightarrow> deal_dict \<Rightarrow> int \<Rightarrow> scored_deal" where
  "make_scored an d deal_eff score =
     (case compute_unit_price d of
        (up_amt, up_unit, up_disp) \<Rightarrow>
          \<lparr>deal_copy = deal_eff,
           engagement_score = score,
           category_group = categorize_deal d,
           is_priority = is_priority_deal an d,
           unit_price_amount = up_amt,
           unit_price_unit = up_unit,
           unit_price_display = up_disp\<rparr>)"

text \<open>
  The loop returns the pair \<open>(scored_deals, priority_deals)\<close>, or \<open>None\<close> when a score
  raises.
\<close>

fun scoring_loop :: "analyzer \<Rightarrow> deal_dict list \<Rightarrow> (scored_deal list \<times> scored_deal list) option" where
  "scoring_loop an [] = Some ([], [])"
| "scoring_loop an (d # ds) =
     (let deal_eff = apply_multibuy_overrides d
      in if should_exclude an deal_eff then scoring_loop an ds
         else (case calculate_total_score an deal_eff of
                 None \<Rightarrow> None
               | Some score \<Rightarrow>
                   (case scoring_loop an ds of
                      None \<Rightarrow> None
                    | Some (scored_deals, priority_deals') \<Rightarrow>
                        let deal_copy' = make_scored an d deal_eff score
                        in if is_priority deal_copy'
                           then Some (scored_deals, deal_copy' # priority_deals')
                           else Some (deal_copy' # scored_deals, priority_deals'))))"

text \<open>
  The tie-break key. Python compares the tuples lexicographically; \<open>float("inf")\<close>, which
  stands for an absent unit price or amount, is the pair \<open>(True, 0)\<close>, above every
  \<open>(False, x)\<close>.
\<close>

definition tie_break_key :: "scored_deal \<Rightarrow> int \<times> int \<times> rat \<times> (bool \<times> rat) \<times> (bool \<times> rat)" where
  "tie_break_key d =
     (let p = price_of (deal_copy d);
          savings_pct = savings_percent p;
          savings_pct_v = (if is_number savings_pct then float_value savings_pct else - 1);
          up_v = (case unit_price_amount d of None \<Rightarrow> (True, 0) | Some up \<Rightarrow> (False, up));
          amt = amount p;
          amt_v = (if is_number amt then (False, float_value amt) else (True, 0))
      in (- engagement_score d, - (if is_priority d then 1 else 0), - savings_pct_v, up_v, amt_v))"

subsection \<open>Slices and indexing\<close>

text \<open>\<open>xs[:n]\<close> and \<open>xs[i]\<close> with Python's negative indices; \<open>None\<close> is IndexError.\<close>

definition py_take :: "int \<Rightarrow> 'a list \<Rightarrow> 'a list" where
  "py_take n xs = (if 0 \<le> n then take (nat n) xs else take (nat (int (length xs) + n)) xs)"

definition py_index :: "'a list \<Rightarrow> int \<Rightarrow> 'a option" where
  "py_index xs i =
     (let j = (if i < 0 then int (length xs) + i else i)
      in if 0 \<le> j \<and> j < int (length xs) then Some (xs ! nat j) else None)"

subsection \<open>Category balance\<close>

definition categories :: "string list" where
  "categories = [''Meat/Seafood'', ''Produce'', ''Snacks/Other'']"

text \<open>
  The dictionaries \<open>allocations\<close> and \<open>available_counts\<close> have the three categories as
  keys; they are functions, 0 outside the categories.
\<close>

definition allocated_total :: "(string \<Rightarrow> int) \<Rightarrow> int" where
  "allocated_total allocations = sum_list (map allocations categories)"

definition base_allocation :: "int \<Rightarrow> (string \<Rightarrow> int) \<Rightarrow> int \<Rightarrow> string \<Rightarrow> int" where
  "base_allocation remaining_slots available_counts total_available c =
     (if available_counts c \<noteq> 0
      then round_half_even
             (fmul (rnd (of_int remaining_slots))
                (rnd (of_int (available_counts c) / of_int total_available)))
      else 0)"

text \<open>
  The inner \<open>for\<close> loops that look for the best next candidate and for the worst
  allocated item, with the pair \<open>(best_cat, best_next)\<close> as state.
\<close>

fun find_best ::
  "(string \<Rightarrow> scored_deal list) \<Rightarrow> (string \<Rightarrow> int) \<Rightarrow> (string \<Rightarrow> int) \<Rightarrow> string list \<Rightarrow>
   (string \<times> scored_deal) option \<Rightarrow> (string \<times> scored_deal) option option" where
  "find_best category_groups allocations available_counts [] best = Some best"
| "find_best category_groups allocations available_counts (c # cs) best =
     (if allocations c < available_counts c
      then (case py_index (category_groups c) (allocations c) of
              None \<Rightarrow> None
            | Some cand \<Rightarrow>
                (case best of
                   None \<Rightarrow> find_best category_groups allocations available_counts cs (Some (c, cand))
                 | Some (best_cat, best_next) \<Rightarrow>
                     if tie_break_key cand < tie_break_key best_next
                     then find_best category_groups allocations available_counts cs (Some (c, cand))
                     else find_best category_groups allocations available_counts cs best))
      else find_best category_groups allocations available_counts cs best)"

fun find_worst ::
  "(string \<Rightarrow> scored_deal list) \<Rightarrow> (string \<Rightarrow> int) \<Rightarrow> string list \<Rightarrow>
   (string \<times> scored_deal) option \<Rightarrow> (string \<times> scored_deal) option option" where
  "find_worst category_groups allocations [] worst = Some worst"
| "find_worst category_groups allocations (c # cs) worst =
     (if 0 < allocations c
      then (case py_index (category_groups c) (allocations c - 1) of
              None \<Rightarrow> None
            | Some item \<Rightarrow>
                (case worst of
                   None \<Rightarrow> find_worst category_groups allocations cs (Some (c, item))
                 | Some (worst_cat, worst_item) \<Rightarrow>
                     if tie_break_key worst_item < tie_break_key item
                     then find_worst category_groups allocations cs (Some (c, item))
                     else find_worst category_groups allocations cs worst))
      else find_worst category_groups allocations cs worst)"

lemma find_best_category:
  "find_best g al av cs best = Some (Some (c, x)) \<Longrightarrow>
   c \<in> set cs \<or> (\<exists>y. best = Some (c, y))"
proof (induction cs arbitrary: best)
  case Nil
  then show ?case by simp
next
  case (Cons a cs)
  from Cons.prems obtain best' where
    step: "find_best g al av cs best' = Some (Some (c, x))" and
    origin: "best' = best \<or> (\<exists>y. best' = Some (a, y))"
    by (auto split: if_splits option.splits)
  from Cons.IH [OF step] origin show ?case by auto
qed

lemma find_worst_category:
  "find_worst g al cs worst = Some (Some (c, x)) \<Longrightarrow>
   c \<in> set cs \<or> (\<exists>y. worst = Some (c, y))"
proof (induction cs arbitrary: worst)
  case Nil
  then show ?case by simp
next
  case (Cons a cs)
  from Cons.prems obtain worst' where
    step: "find_worst g al cs worst' = Some (Some (c, x))" and
    origin: "worst' = worst \<or> (\<exists>y. worst' = Some (a, y))"
    by (auto split: if_splits option.splits)
  from Cons.IH [OF step] origin show ?case by auto
qed

lemma allocated_total_update:
  "c \<in> set categories \<Longrightarrow> allocated_total (al(c := v)) = allocated_total al - al c + v"
  by (auto simp: allocated_total_def categories_def)

text \<open>
  The two \<open>while\<close> loops that adjust the allocations, each inside an \<open>if\<close> that repeats
  its condition. \<open>None\<close> is an IndexError of the inner loop.
\<close>

function add_slots ::
  "(string \<Rightarrow> scored_deal list) \<Rightarrow> (string \<Rightarrow> int) \<Rightarrow> int \<Rightarrow> (string \<Rightarrow> int) \<Rightarrow>
   (string \<Rightarrow> int) option" where
  "add_slots category_groups available_counts remaining_slots allocations =
     (if allocated_total allocations < remaining_slots
      then (case find_best category_groups allocations available_counts categories None of
              None \<Rightarrow> None
            | Some None \<Rightarrow> Some allocations
            | Some (Some (best_cat, best_next)) \<Rightarrow>
                add_slots category_groups available_counts remaining_slots
                  (allocations(best_cat := allocations best_cat + 1)))
      else Some allocations)"
  by pat_completeness auto
termination
proof (relation "measure (\<lambda>(g, av, r, al). nat (r - allocated_total al))")
  show "wf (measure (\<lambda>(g, av, r, al). nat (r - allocated_total al)))" by simp
next
  fix g :: "string \<Rightarrow> scored_deal list" and av r al x2 x2a x y
  assume lt: "allocated_total al < r"
    and f: "find_best g al av categories None = Some x2" "x2 = Some x2a" "(x, y) = x2a"
  then have "x \<in> set categories" using find_best_category [of g al av categories None x y] by auto
  then have "allocated_total (al(x := al x + 1)) = allocated_total al + 1"
    by (simp add: allocated_total_update)
  with lt show "((g, av, r, al(x := al x + 1)), (g, av, r, al))
      \<in> measure (\<lambda>(g, av, r, al). nat (r - allocated_total al))"
    by simp
qed

function remove_slots ::
  "(string \<Rightarrow> scored_deal list) \<Rightarrow> int \<Rightarrow> (string \<Rightarrow> int) \<Rightarrow> (string \<Rightarrow> int) option" where
  "remove_slots category_groups remaining_slots allocations =
     (if remaining_slots < allocated_total allocations
      then (case find_worst category_groups allocations categories None of
              None \<Rightarrow> None
            | Some None \<Rightarrow> Some allocations
            | Some (Some (worst_cat, worst_item)) \<Rightarrow>
                remove_slots category_groups remaining_slots
                  (allocations(worst_cat := allocations worst_cat - 1)))
      else Some allocations)"
  by pat_completeness auto
termination
proof (relation "measure (\<lambda>(g, r, al). nat (allocated_total al - r))")
  show "wf (measure (\<lambda>(g, r, al). nat (allocated_total al - r)))" by simp
next
  fix g :: "string \<Rightarrow> scored_deal list" and r al x2 x2a x y
  assume lt: "r < allocated_total al"
    and f: "find_worst g al categories None = Some x2" "x2 = Some x2a" "(x, y) = x2a"
  then have "x \<in> set categories" using find_worst_category [of g al categories None x y] by auto
  then have "allocated_total (al(x := al x - 1)) = allocated_total al - 1"
    by (simp add: allocated_total_update)
  with lt show "((g, r, al(x := al x - 1)), (g, r, al))
      \<in> measure (\<lambda>(g, r, al). nat (allocated_total al - r))"
    by simp
qed

declare add_slots.simps [simp del]
declare remove_slots.simps [simp del]

text \<open>The allocations after the base allocation, the clamp and the two adjustments.\<close>

definition balanced_allocations ::
  "(string \<Rightarrow> scored_deal list) \<Rightarrow> (string \<Rightarrow> int) \<Rightarrow> int \<Rightarrow> (string \<Rightarrow> int) option" where
  "balanced_allocations category_groups available_counts remaining_slots =
     (let total_available = allocated_total available_counts
      in if 0 < total_available
         then (let clamped =
                     (\<lambda>c. if c \<in> set categories
                          then min (base_allocation remaining_slots available_counts total_available c)
                                 (available_counts c)
                          else 0)
               in (case add_slots category_groups available_counts remaining_slots clamped of
                     None \<Rightarrow> None
                   | Some added_to \<Rightarrow> remove_slots category_groups remaining_slots added_to))
         else Some (\<lambda>c. 0))"

text \<open>The backfill loop; \<open>added_ids\<close> is computed once, before the loop.\<close>

fun backfill :: "jval list \<Rightarrow> int \<Rightarrow> scored_deal list \<Rightarrow> scored_deal list \<Rightarrow> scored_deal list" where
  "backfill added_ids remaining_slots [] added = added"
| "backfill added_ids remaining_slots (d # ds) added =
     (if remaining_slots \<le> int (length added) then added
      else if list_ex (py_eq (deal_id (deal_copy d))) added_ids
        then backfill added_ids remaining_slots ds added
      else backfill added_ids remaining_slots ds (added @ [d]))"

subsection \<open>The entry points\<close>

definition analyze_deals ::
  "analyzer \<Rightarrow> deal_dict list \<Rightarrow> int \<Rightarrow> bool option \<Rightarrow> scored_deal list option" where
  "analyze_deals an deals0 top_n balance_categories' =
     (let deals1 = dedupe_deals an deals0
      in if deals1 = [] then Some []
         else
           (let balance = (case balance_categories' of
                             None \<Rightarrow> balance_categories (config an)
                           | Some b \<Rightarrow> b);
                deals = dedupe_deals an deals1
            in (case scoring_loop an deals of
                  None \<Rightarrow> None
                | Some (scored0, priority0) \<Rightarrow>
                    if scored0 = [] \<and> priority0 = [] then Some []
                    else
                      (let scored_deals = sort_key tie_break_key scored0;
                           priority_deals' = sort_key tie_break_key priority0;
                           remaining_slots = max 0 (top_n - int (length priority_deals'))
                       in if remaining_slots \<le> 0 then Some (py_take top_n priority_deals')
                          else if \<not> balance
                            then Some (py_take top_n
                                         (priority_deals' @ py_take remaining_slots scored_deals))
                          else
                            (let category_groups =
                                   (\<lambda>c. filter (\<lambda>d. category_group d = c) scored_deals);
                                 available_counts = (\<lambda>c. int (length (category_groups c)))
                             in (case balanced_allocations category_groups available_counts
                                        remaining_slots of
                                   None \<Rightarrow> None
                                 | Some allocations \<Rightarrow>
                                     (let added0 =
                                            concat (map (\<lambda>c. py_take (allocations c) (category_groups c))
                                                      categories);
                                          added =
                                            (if int (length added0) < remaining_slots
                                             then backfill (map (\<lambda>d. deal_id (deal_copy d)) added0)
                                                    remaining_slots scored_deals added0
                                             else added0)
                                      in Some (py_take top_n
                                                 (sort_key tie_break_key (priority_deals' @ added))))))))))"

text \<open>
  \<open>analyze_deals_debug\<close>: the exclusion reasons are computed on the deals as given, then
  \<open>analyze_deals\<close> runs on the deals that were kept.
\<close>

definition analyze_deals_debug ::
  "analyzer \<Rightarrow> deal_dict list \<Rightarrow> int \<Rightarrow> bool option \<Rightarrow>
   scored_deal list option \<times> (deal_dict \<times> string) list" where
  "analyze_deals_debug an deals0 top_n balance_categories' =
     (let deals = dedupe_deals an deals0;
          kept = filter (\<lambda>d. get_exclusion_reason an d = None) deals;
          excluded = concat (map (\<lambda>d. case get_exclusion_reason an d of
                                         None \<Rightarrow> []
                                       | Some reason \<Rightarrow> [(d, reason)]) deals)
      in (analyze_deals an kept top_n balance_categories', excluded))"

section \<open>Example deals\<close>

text \<open>A price and a deal with the given fields, every other field absent.\<close>

definition mk_price :: "jval \<Rightarrow> string option \<Rightarrow> jval \<Rightarrow> price_dict" where
  "mk_price a u sp =
     \<lparr>amount = a, unit = u, display = None, is_multibuy = None, multibuy_details = None,
      original_price = JNone, savings_amount = JNone, savings_percent = sp\<rparr>"

definition mk_deal :: "string option \<Rightarrow> string option \<Rightarrow> price_dict option \<Rightarrow> deal_dict" where
  "mk_deal n c p =
     \<lparr>deal_id = JNone, page = JNone, retailer = None, product_name = n, brand = None,
      category = c, price = p, size_quantity = None, container_type = None,
      special_notes = None, format = None, quantity_required = None,
      multibuy_total_cost = None, multibuy_format = None\<rparr>"

definition beer_deal :: deal_dict where
  "beer_deal = mk_deal (Some ''lager'') (Some ''Beer & Wine'') (Some (mk_price JNone None JNone))"

definition steak_deal :: deal_dict where
  "steak_deal =
     mk_deal (Some ''chicken breast steak'') (Some ''MEAT'') (Some (mk_price (JFloat 5) (Some ''lb'') JNone))"

definition ten_percent_deal :: deal_dict where
  "ten_percent_deal = mk_deal None None (Some (mk_price (JFloat (rnd (499 / 100))) None (JInt 10)))"

definition three_pound_deal :: deal_dict where
  "three_pound_deal = mk_deal None None (Some (mk_price (JFloat (rnd (499 / 100))) (Some ''3lb'') JNone))"

section \<open>The specification's formulations\<close>

text \<open>
  The seven exclusion checks in the order of the specification, each with its reason code,
  and the reason of the first check that matches.
\<close>

definition spec_exclusion_checks :: "analyzer \<Rightarrow> deal_dict \<Rightarrow> (bool \<times> string) list" where
  "spec_exclusion_checks an d =
     (let cfg = config an;
          price_amount = amount (price_of d);
          cat_u = upper (or_empty (category d));
          name_l = lower (or_empty (product_name d));
          brand_l = strip (lower (or_empty (brand d)));
          combined_l = lower (or_empty (product_name d) @ '' '' @ or_empty (brand d))
      in [(\<not> is_number price_amount, ''missing_price_amount''),
          (num_value price_amount < 0, ''invalid_negative_price''),
          (or_empty (category d) \<in> set (excluded_categories cfg) \<or>
           any_in [''ALCOHOL'', ''BEER'', ''WINE'', ''SPIRITS''] cat_u, ''excluded_category_alcohol''),
          ((py_in ''HEALTH'' cat_u \<or> py_in ''BEAUTY'' cat_u) \<and> any_in (supplement_keywords cfg) name_l,
           ''excluded_supplement''),
          (list_ex (\<lambda>b. brand_l \<noteq> [] \<and> brand_l = lower b) (store_brands cfg) \<or>
           list_ex (\<lambda>b. pattern_search b combined_l) (store_brand_patterns cfg),
           ''excluded_store_brand''),
          (any_in (excluded_products cfg) name_l \<and> any_in [''MEAT'', ''DELI'', ''SEAFOOD''] cat_u,
           ''excluded_product_keyword''),
          (or_empty (retailer_filter an) \<noteq> [] \<and> retailer d \<noteq> retailer_filter an,
           ''filtered_out_by_retailer'')])"

definition first_match :: "(bool \<times> string) list \<Rightarrow> string option" where
  "first_match cs = map_option snd (find fst cs)"

text \<open>
  The priority bonus as the specification words it: the bonus of the first rule that the
  deal matches in full.
\<close>

fun first_accepting_bonus :: "(string \<times> priority_rule) list \<Rightarrow> string \<Rightarrow> string \<Rightarrow> rat \<Rightarrow> int" where
  "first_accepting_bonus [] category' product_name' up = 0"
| "first_accepting_bonus ((name, criteria) # rules) category' product_name' up =
     (if rule_accepts criteria category' product_name' up then bonus_score criteria
      else first_accepting_bonus rules category' product_name' up)"

definition spec_priority_bonus :: "analyzer \<Rightarrow> deal_dict \<Rightarrow> int" where
  "spec_priority_bonus an d =
     (case compute_unit_price d of
        (unit_price_amount', unit_price_unit', disp) \<Rightarrow>
          (case unit_price_amount' of
             None \<Rightarrow> 0
           | Some up \<Rightarrow>
               if unit_price_unit' \<noteq> Some ''lb'' then 0
               else first_accepting_bonus (priority_deals (config an)) (or_empty (category d))
                      (lower (or_empty (product_name d))) up))"

text \<open>
  The discount depth as the specification words it, with rounding to the nearest integer.
\<close>

definition spec_discount_depth :: "rat \<Rightarrow> int" where
  "spec_discount_depth pct = max 0 (min 20 (round ((pct - 5) * 20 / 55)))"

definition round_number_deal :: deal_dict where
  "round_number_deal = mk_deal None None (Some (mk_price (JFloat (rnd (399 / 100))) None JNone))"

definition ten_ninety_nine_deal :: deal_dict where
  "ten_ninety_nine_deal = mk_deal None None (Some (mk_price (JFloat (rnd (1099 / 100))) None JNone))"

section \<open>Invariant of the allocations\<close>

text \<open>Every category's allocation lies between 0 and the size of its group.\<close>

definition alloc_ok :: "(string \<Rightarrow> scored_deal list) \<Rightarrow> (string \<Rightarrow> int) \<Rightarrow> bool" where
  "alloc_ok g al = (\<forall>c \<in> set categories. 0 \<le> al c \<and> al c \<le> int (length (g c)))"

section \<open>Scored copies\<close>

text \<open>
  The deals that survive deduplication and exclusion and qualify as priority, and the
  relation between a deal and the scored copy that the loop of \<open>analyze_deals\<close> makes of it.
\<close>

definition priority_candidates :: "analyzer \<Rightarrow> deal_dict list \<Rightarrow> deal_dict list" where
  "priority_candidates an deals =
     filter (\<lambda>d. \<not> should_exclude an (apply_multibuy_overrides d) \<and> is_priority_deal an d)
       (dedupe_deals an deals)"

definition is_scored_copy :: "analyzer \<Rightarrow> deal_dict \<Rightarrow> scored_deal \<Rightarrow> bool" where
  "is_scored_copy an d sd =
     (case calculate_total_score an (apply_multibuy_overrides d) of
        None \<Rightarrow> False
      | Some score \<Rightarrow> sd = make_scored an d (apply_multibuy_overrides d) score)"

section \<open>Properties\<close>

subsection \<open>Unit price\<close>

lemma normalize_unit_3lb: "normalize_unit (Some ''3lb'') disp = (''lb'', Some 3, ''lb'')"
proof -
  have a: "lower (strip (or_empty (Some ''3lb''))) = ''3lb''" by code_simp
  have b: "numeric_prefixed ''3lb'' = Some (''lb'', Some 3, ''lb'')" by code_simp
  show ?thesis by (simp add: normalize_unit_def a b)
qed

lemma no_override: "is_multibuy (price_of d) \<noteq> Some True \<Longrightarrow> apply_multibuy_overrides d = d"
  by (simp add: apply_multibuy_overrides_def extract_multibuy_details_def)

text \<open>
  C8. A deal priced 4.99 for the unit \<open>3lb\<close>, with no multibuy flag, has the unit price
  \<open>4.99 / 3\<close> as a float (within \<open>10^-15\<close> of the exact quotient), the unit label \<open>lb\<close>
  and the display \<open>$1.66/lb\<close>.
\<close>

theorem unit_price_example:
  assumes "price d = Some p" "amount p = JFloat (rnd (499 / 100))" "unit p = Some ''3lb''"
    "is_multibuy p \<noteq> Some True"
  shows "compute_unit_price d =
           (Some (7490987380192925 / 4503599627370496), Some ''lb'', Some ''$1.66/lb'') \<and>
         \<bar>7490987380192925 / 4503599627370496 - (499 / 100) / 3\<bar> < (1 / 10 ^ 15 :: rat)"
proof -
  have po: "price_of d = p" using assms(1) by (simp add: price_of_def)
  have no: "apply_multibuy_overrides d = d" using assms(4) po by (simp add: no_override)
  have r: "fdiv (rnd (499 / 100)) 3 = 7490987380192925 / 4503599627370496" by code_simp
  have f: "fmt2 (7490987380192925 / 4503599627370496) = ''1.66''" by code_simp
  have "compute_unit_price d =
           (Some (7490987380192925 / 4503599627370496), Some ''lb'', Some ''$1.66/lb'')"
    by (simp add: compute_unit_price_def no po assms(2) assms(3) normalize_unit_3lb
        qty_pos_def qty_val_def r f)
  moreover have "\<bar>7490987380192925 / 4503599627370496 - (499 / 100) / 3\<bar> < (1 / 10 ^ 15 :: rat)"
    by simp
  ultimately show ?thesis by simp
qed

theorem unit_price_example_witness:
  "compute_unit_price three_pound_deal =
     (Some (7490987380192925 / 4503599627370496), Some ''lb'', Some ''$1.66/lb'')"
  using unit_price_example [of three_pound_deal
      "mk_price (JFloat (rnd (499 / 100))) (Some ''3lb'') JNone"]
  by (simp add: three_pound_deal_def mk_deal_def mk_price_def)

subsection \<open>Exclusion\<close>

text \<open>
  C6. A deal whose price amount is missing or not a number is excluded for
  \<open>missing_price_amount\<close>, whatever its other fields; and the reason that
  \<open>get_exclusion_reason\<close> returns is the reason of the first of the seven checks, in the
  specification's order, that matches.
\<close>

theorem exclusion_precedence:
  "(\<not> is_number (amount (price_of d)) \<longrightarrow> get_exclusion_reason an d = Some ''missing_price_amount'') \<and>
   get_exclusion_reason an d = first_match (spec_exclusion_checks an d)"
  by (simp add: get_exclusion_reason_def spec_exclusion_checks_def first_match_def Let_def)

theorem exclusion_precedence_witness:
  "\<not> is_number (amount (price_of beer_deal)) \<and> 
   any_in [''ALCOHOL'', ''BEER'', ''WINE'', ''SPIRITS''] (upper (or_empty (category beer_deal))) \<and>
   get_exclusion_reason (default_analyzer None) beer_deal = Some ''missing_price_amount''"
proof -
  have a: "\<not> is_number (amount (price_of beer_deal))" by code_simp
  have b: "any_in [''ALCOHOL'', ''BEER'', ''WINE'', ''SPIRITS''] (upper (or_empty (category beer_deal)))" by code_simp
  show ?thesis using exclusion_precedence [of beer_deal "default_analyzer None"] a b by simp
qed

subsection \<open>Priority bonus\<close>

text \<open>
  C2. On a deal named \<open>chicken breast steak\<close> in category \<open>MEAT\<close> at 5.00 per pound,
  the first rule matched in full is \<open>steak\<close> (bonus 25): the rule \<open>chicken_breast\<close>
  fails on its price. \<open>get_priority_bonus\<close> returns 30, the bonus of
  \<open>chicken_breast\<close>, because its loop tests keywords only.
\<close>

theorem priority_bonus_first_keyword_rule:
  "get_priority_bonus (default_analyzer None) steak_deal = 30 \<and>
   spec_priority_bonus (default_analyzer None) steak_deal = 25"
  by code_simp

subsection \<open>Discount depth\<close>

text \<open>
  C4. At a savings percent of 10 the formula of the claim, with rounding to the nearest
  integer, gives 2, the value that the comment in \<open>calculate_discount_depth\<close> announces
  for 10 percent; the function returns 1, because \<open>int\<close> truncates \<open>1.818...\<close>.
\<close>

theorem discount_depth_ten_percent:
  "calculate_discount_depth ten_percent_deal = 1 \<and>
   spec_discount_depth (num_value (savings_percent (price_of ten_percent_deal))) = 2"
  by code_simp

subsection \<open>Viral pricing\<close>

text \<open>
  C5, as stated, fails: the amount 3.99 formats as \<open>3.99\<close>, which ends in \<open>.99\<close>, and
  gets no round-number bonus; its viral-pricing score is the price tier 10 alone. The
  endings of the source are \<open>0.99\<close>, \<open>1.99\<close>, \<open>2.49\<close>, \<open>2.99\<close>, \<open>4.99\<close>, \<open>9.99\<close>.
\<close>

theorem round_number_counterexample:
  "is_number (amount (price_of round_number_deal)) \<and>
   endswith (fmt2 (float_value (amount (price_of round_number_deal)))) ''.99'' \<and>
   round_number_bonus round_number_deal = 0 \<and>
   effective_price_for_scoring round_number_deal = Some (rnd (399 / 100)) \<and>
   price_tier (rnd (399 / 100)) = 10 \<and>
   calculate_viral_pricing_score round_number_deal = Some 10"
  by code_simp

lemma amount_override_is_number:
  "is_number (amount (price_of d)) \<Longrightarrow> is_number (amount (price_of (apply_multibuy_overrides d)))"
  by (simp add: apply_multibuy_overrides_def price_of_def Let_def split: prod.splits option.splits)

lemma py_float_number: "is_number v \<Longrightarrow> py_float v = Some (float_value v)"
  by (cases v) auto

lemma effective_price_defined:
  assumes "is_number (amount (price_of d))"
  shows "\<exists>pe. effective_price_for_scoring d = Some pe"
proof -
  let ?a = "amount (price_of (apply_multibuy_overrides d))"
  have n: "is_number ?a" using assms by (rule amount_override_is_number)
  have "\<exists>pa. (if truthy ?a then py_float ?a else Some 0) = Some pa"
    using n by (simp add: py_float_number)
  then obtain pa where pa: "(if truthy ?a then py_float ?a else Some 0) = Some pa" ..
  obtain up uu disp where c: "compute_unit_price (apply_multibuy_overrides d) = (up, uu, disp)"
    by (cases "compute_unit_price (apply_multibuy_overrides d)") auto
  show ?thesis
    unfolding effective_price_for_scoring_def Let_def pa c
    by (cases up) auto
qed

text \<open>
  C5, amended. For a deal with a numeric amount whose two-decimal text ends in one of
  \<open>0.99\<close>, \<open>1.99\<close>, \<open>2.49\<close>, \<open>2.99\<close>, \<open>4.99\<close>, \<open>9.99\<close> the round-number bonus is 8;
  the viral-pricing score is the sum of the price tier, that bonus, the multibuy bonus and
  the savings bonus, clamped to 30, and never exceeds 30.
\<close>

theorem viral_round_number_bonus:
  assumes "is_number (amount (price_of d))"
  shows "(list_ex (\<lambda>ending. endswith (fmt2 (float_value (amount (price_of d)))) ending)
            [''0.99'', ''1.99'', ''2.49'', ''2.99'', ''4.99'', ''9.99'']
          \<longrightarrow> round_number_bonus d = 8) \<and>
         (\<exists>price_eff. effective_price_for_scoring d = Some price_eff \<and>
            calculate_viral_pricing_score d =
              Some (min (price_tier price_eff + round_number_bonus d + multibuy_bonus d +
                         high_savings_bonus d) 30)) \<and>
         (\<forall>s. calculate_viral_pricing_score d = Some s \<longrightarrow> s \<le> 30)"
proof -
  obtain pe where pe: "effective_price_for_scoring d = Some pe"
    using effective_price_defined [OF assms] by blast
  have a: "list_ex (\<lambda>ending. endswith (fmt2 (float_value (amount (price_of d)))) ending)
            [''0.99'', ''1.99'', ''2.49'', ''2.99'', ''4.99'', ''9.99'']
          \<longrightarrow> round_number_bonus d = 8"
    using assms by (simp add: round_number_bonus_def Let_def)
  have b: "calculate_viral_pricing_score d =
              Some (min (price_tier pe + round_number_bonus d + multibuy_bonus d +
                         high_savings_bonus d) 30)"
    by (simp add: calculate_viral_pricing_score_def pe)
  have c: "\<forall>s. calculate_viral_pricing_score d = Some s \<longrightarrow> s \<le> 30"
    by (simp add: calculate_viral_pricing_score_def pe)
  show ?thesis using a b c pe by blast
qed

theorem viral_round_number_bonus_witness:
  "is_number (amount (price_of ten_ninety_nine_deal)) \<and>
   endswith (fmt2 (float_value (amount (price_of ten_ninety_nine_deal)))) ''0.99'' \<and>
   round_number_bonus ten_ninety_nine_deal = 8 \<and>
   calculate_viral_pricing_score ten_ninety_nine_deal = Some 8"
proof -
  have a: "is_number (amount (price_of ten_ninety_nine_deal))" by code_simp
  have b: "endswith (fmt2 (float_value (amount (price_of ten_ninety_nine_deal)))) ''0.99''" by code_simp
  have c: "calculate_viral_pricing_score ten_ninety_nine_deal = Some 8" by code_simp
  show ?thesis using viral_round_number_bonus [OF a] a b c by simp
qed

subsection \<open>The analysis never raises\<close>

lemma kept_amount_is_number: "\<not> should_exclude an d \<Longrightarrow> is_number (amount (price_of d))"
  by (simp add: should_exclude_def get_exclusion_reason_def Let_def split: if_splits)

lemma total_score_defined:
  assumes "is_number (amount (price_of d))"
  shows "\<exists>s. calculate_total_score an d = Some s"
proof -
  obtain pe where "effective_price_for_scoring d = Some pe"
    using effective_price_defined [OF assms] by blast
  then show ?thesis
    by (simp add: calculate_total_score_def calculate_viral_pricing_score_def)
qed

lemma scoring_loop_defined: "\<exists>sc pr. scoring_loop an ds = Some (sc, pr)"
proof (induction ds)
  case Nil
  show ?case by simp
next
  case (Cons d ds)
  then obtain sc pr where ih: "scoring_loop an ds = Some (sc, pr)" by blast
  show ?case
  proof (cases "should_exclude an (apply_multibuy_overrides d)")
    case True
    then show ?thesis using ih by simp
  next
    case False
    then obtain s where "calculate_total_score an (apply_multibuy_overrides d) = Some s"
      using total_score_defined kept_amount_is_number by blast
    then show ?thesis using False ih by (simp add: Let_def)
  qed
qed

lemma round_div_nonneg: "0 \<le> a \<Longrightarrow> 0 < b \<Longrightarrow> 0 \<le> round_div a b"
  by (simp add: round_div_def Let_def pos_imp_zdiv_nonneg_iff)

lemma quotient_of_nonneg:
  assumes "0 \<le> x" "quotient_of x = (a, b)"
  shows "0 \<le> a \<and> 0 < b"
proof -
  have b: "0 < b" using assms(2) by (rule quotient_of_denom_pos)
  have "x = of_int a / of_int b" using assms(2) by (rule quotient_of_div)
  then have "0 \<le> (of_int a :: rat)" using assms(1) b by (simp add: zero_le_divide_iff)
  then show ?thesis using b by simp
qed

lemma round_half_even_nonneg: "0 \<le> x \<Longrightarrow> 0 \<le> round_half_even x"
  by (auto simp: round_half_even_def split: prod.splits dest: quotient_of_nonneg intro: round_div_nonneg)

lemma rnd_nonneg:
  assumes "0 \<le> q"
  shows "0 \<le> rnd q"
proof -
  obtain a b where ab: "quotient_of q = (a, b)" by (cases "quotient_of q")
  then have pos: "0 \<le> a" "0 < b" using quotient_of_nonneg [OF assms] by auto
  have "\<And>n. 0 \<le> round_div (a * 2 ^ n) b" using pos by (simp add: round_div_nonneg)
  moreover have "\<And>n. 0 \<le> round_div a (b * 2 ^ n)" using pos by (simp add: round_div_nonneg)
  ultimately show ?thesis by (simp add: rnd_def ab Let_def)
qed

lemma base_allocation_nonneg:
  "0 \<le> r \<Longrightarrow> 0 \<le> av c \<Longrightarrow> 0 < t \<Longrightarrow> 0 \<le> base_allocation r av t c"
  by (simp add: base_allocation_def fmul_def rnd_nonneg round_half_even_nonneg)

lemma py_take_length: "0 \<le> n \<Longrightarrow> int (length (py_take n xs)) \<le> n"
  by (simp add: py_take_def)

lemma py_take_all: "int (length xs) \<le> n \<Longrightarrow> py_take n xs = xs"
  by (simp add: py_take_def)

lemma set_py_take: "set (py_take n xs) \<subseteq> set xs"
  by (auto simp: py_take_def dest: in_set_takeD)

lemma py_index_in_range: "0 \<le> i \<Longrightarrow> i < int (length xs) \<Longrightarrow> \<exists>x. py_index xs i = Some x"
  by (simp add: py_index_def)

lemma find_best_defined:
  "\<forall>c \<in> set cs. 0 \<le> al c \<Longrightarrow> \<exists>r. find_best g al (\<lambda>c. int (length (g c))) cs best = Some r"
proof (induction cs arbitrary: best)
  case Nil
  show ?case by simp
next
  case (Cons a cs)
  have ih: "\<And>b. \<exists>r. find_best g al (\<lambda>c. int (length (g c))) cs b = Some r"
    using Cons by simp
  show ?case
  proof (cases "al a < int (length (g a))")
    case True
    then obtain x where "py_index (g a) (al a) = Some x"
      using py_index_in_range [of "al a" "g a"] Cons.prems by auto
    then show ?thesis using True ih by (auto split: option.splits)
  next
    case False
    then show ?thesis using ih by simp
  qed
qed

lemma find_best_spare:
  "find_best g al av cs best = Some (Some (c, x)) \<Longrightarrow>
   (c \<in> set cs \<and> al c < av c) \<or> (\<exists>y. best = Some (c, y))"
proof (induction cs arbitrary: best)
  case Nil
  then show ?case by simp
next
  case (Cons a cs)
  from Cons.prems obtain best' where
    step: "find_best g al av cs best' = Some (Some (c, x))" and
    origin: "best' = best \<or> (al a < av a \<and> (\<exists>y. best' = Some (a, y)))"
    by (auto split: if_splits option.splits)
  from Cons.IH [OF step] origin show ?case by auto
qed

lemma find_worst_defined:
  "\<forall>c \<in> set cs. al c \<le> int (length (g c)) \<Longrightarrow> \<exists>r. find_worst g al cs worst = Some r"
proof (induction cs arbitrary: worst)
  case Nil
  show ?case by simp
next
  case (Cons a cs)
  have ih: "\<And>w. \<exists>r. find_worst g al cs w = Some r"
    using Cons by simp
  show ?case
  proof (cases "0 < al a")
    case True
    then obtain x where "py_index (g a) (al a - 1) = Some x"
      using py_index_in_range [of "al a - 1" "g a"] Cons.prems by auto
    then show ?thesis using True ih by (auto split: option.splits)
  next
    case False
    then show ?thesis using ih by simp
  qed
qed

lemma find_worst_used:
  "find_worst g al cs worst = Some (Some (c, x)) \<Longrightarrow>
   (c \<in> set cs \<and> 0 < al c) \<or> (\<exists>y. worst = Some (c, y))"
proof (induction cs arbitrary: worst)
  case Nil
  then show ?case by simp
next
  case (Cons a cs)
  from Cons.prems obtain worst' where
    step: "find_worst g al cs worst' = Some (Some (c, x))" and
    origin: "worst' = worst \<or> (0 < al a \<and> (\<exists>y. worst' = Some (a, y)))"
    by (auto split: if_splits option.splits)
  from Cons.IH [OF step] origin show ?case by auto
qed

lemma find_worst_none:
  "find_worst g al cs worst = Some None \<Longrightarrow> worst = None \<and> (\<forall>c \<in> set cs. al c \<le> 0)"
proof (induction cs arbitrary: worst)
  case Nil
  then show ?case by simp
next
  case (Cons a cs)
  from Cons.prems obtain worst' where
    step: "find_worst g al cs worst' = Some None" and
    origin: "(worst' = worst \<and> al a \<le> 0) \<or> (\<exists>y. worst' = Some y)"
    by (auto split: if_splits option.splits)
  from Cons.IH [OF step] origin show ?case by auto
qed

lemma add_slots_ok:
  "alloc_ok g al \<Longrightarrow>
   \<exists>al'. add_slots g (\<lambda>c. int (length (g c))) r al = Some al' \<and> alloc_ok g al'"
proof (induction g "\<lambda>c. int (length (g c))" r al rule: add_slots.induct)
  case (1 g r al)
  show ?case
  proof (cases "allocated_total al < r")
    case False
    then show ?thesis using "1.prems" by (simp add: add_slots.simps)
  next
    case True
    have "\<forall>c \<in> set categories. 0 \<le> al c" using "1.prems" by (simp add: alloc_ok_def)
    then obtain res where res: "find_best g al (\<lambda>c. int (length (g c))) categories None = Some res"
      using find_best_defined by blast
    show ?thesis
    proof (cases res)
      case None
      then show ?thesis using True res "1.prems" by (simp add: add_slots.simps)
    next
      case (Some bc)
      obtain c x where bc: "bc = (c, x)" by (cases bc)
      have sp: "c \<in> set categories \<and> al c < int (length (g c))"
        using find_best_spare [of g al _ categories None c x] res Some bc by auto
      have ok: "alloc_ok g (al(c := al c + 1))"
        using "1.prems" sp by (auto simp: alloc_ok_def)
      have "\<exists>al'. add_slots g (\<lambda>c. int (length (g c))) r (al(c := al c + 1)) = Some al' \<and> alloc_ok g al'"
        using "1.hyps" [OF True res Some bc [symmetric] ok] .
      then show ?thesis using True res Some bc by (simp add: add_slots.simps)
    qed
  qed
qed

lemma remove_slots_ok:
  "alloc_ok g al \<Longrightarrow> 0 \<le> r \<Longrightarrow>
   \<exists>al'. remove_slots g r al = Some al' \<and> alloc_ok g al' \<and> allocated_total al' \<le> r"
proof (induction g r al rule: remove_slots.induct)
  case (1 g r al)
  show ?case
  proof (cases "r < allocated_total al")
    case False
    then show ?thesis using "1.prems" by (simp add: remove_slots.simps)
  next
    case True
    have "\<forall>c \<in> set categories. al c \<le> int (length (g c))" using "1.prems" by (simp add: alloc_ok_def)
    then obtain res where res: "find_worst g al categories None = Some res"
      using find_worst_defined by blast
    show ?thesis
    proof (cases res)
      case None
      then have "\<forall>c \<in> set categories. al c \<le> 0" using find_worst_none res by blast
      then have "allocated_total al \<le> 0" by (simp add: allocated_total_def categories_def)
      then show ?thesis using True "1.prems" by simp
    next
      case (Some wc)
      obtain c x where wc: "wc = (c, x)" by (cases wc)
      have sp: "c \<in> set categories \<and> 0 < al c"
        using find_worst_used [of g al categories None c x] res Some wc by auto
      have ok: "alloc_ok g (al(c := al c - 1))"
        using "1.prems" sp by (auto simp: alloc_ok_def)
      have "\<exists>al'. remove_slots g r (al(c := al c - 1)) = Some al' \<and> alloc_ok g al' \<and> allocated_total al' \<le> r"
        using "1.IH" [OF True res Some wc [symmetric] ok "1.prems"(2)] .
      then show ?thesis using True res Some wc by (simp add: remove_slots.simps)
    qed
  qed
qed

lemma balanced_allocations_ok:
  assumes "0 \<le> r"
  shows "\<exists>al. balanced_allocations g (\<lambda>c. int (length (g c))) r = Some al \<and>
              alloc_ok g al \<and> allocated_total al \<le> r"
proof (cases "0 < allocated_total (\<lambda>c. int (length (g c)))")
  case False
  then show ?thesis using assms
    by (simp add: balanced_allocations_def alloc_ok_def allocated_total_def categories_def)
next
  case True
  define t where "t = allocated_total (\<lambda>c. int (length (g c)))"
  define clamped where "clamped = (\<lambda>c. if c \<in> set categories
       then min (base_allocation r (\<lambda>c. int (length (g c))) t c) (int (length (g c))) else 0)"
  have "alloc_ok g clamped"
    using base_allocation_nonneg [of r "\<lambda>c. int (length (g c))" _ t] assms True
    by (simp add: alloc_ok_def clamped_def t_def)
  then obtain al1 where a1: "add_slots g (\<lambda>c. int (length (g c))) r clamped = Some al1" "alloc_ok g al1"
    using add_slots_ok by blast
  then obtain al2 where a2: "remove_slots g r al1 = Some al2" "alloc_ok g al2" "allocated_total al2 \<le> r"
    using remove_slots_ok assms by blast
  show ?thesis using True a1 a2
    by (simp add: balanced_allocations_def Let_def t_def [symmetric] clamped_def [symmetric])
qed

subsection \<open>Deduplication is idempotent\<close>

lemma dedupe_loop_fresh: "d \<in> set (dedupe_loop seen ds) \<Longrightarrow> dedupe_key d \<notin> set seen"
proof (induction ds arbitrary: seen)
  case Nil
  then show ?case by simp
next
  case (Cons a ds)
  show ?case
  proof (cases "dedupe_key a \<in> set seen")
    case True
    then show ?thesis using Cons by simp
  next
    case False
    then have "d = a \<or> d \<in> set (dedupe_loop (dedupe_key a # seen) ds)"
      using Cons.prems by simp
    then show ?thesis using False Cons.IH [of "dedupe_key a # seen"] by auto
  qed
qed

lemma dedupe_loop_distinct: "distinct (map dedupe_key (dedupe_loop seen ds))"
proof (induction ds arbitrary: seen)
  case Nil
  show ?case by simp
next
  case (Cons a ds)
  have "\<And>d. d \<in> set (dedupe_loop (dedupe_key a # seen) ds) \<Longrightarrow> dedupe_key d \<noteq> dedupe_key a"
    using dedupe_loop_fresh [of _ "dedupe_key a # seen" ds] by auto
  then have "dedupe_key a \<notin> dedupe_key ` set (dedupe_loop (dedupe_key a # seen) ds)"
    by (metis imageE)
  then show ?case using Cons.IH by simp
qed

lemma dedupe_loop_fixed:
  "distinct (map dedupe_key ds) \<Longrightarrow> \<forall>d \<in> set ds. dedupe_key d \<notin> set seen \<Longrightarrow>
   dedupe_loop seen ds = ds"
proof (induction ds arbitrary: seen)
  case Nil
  show ?case by simp
next
  case (Cons a ds)
  have "\<forall>d \<in> set ds. dedupe_key d \<notin> set (dedupe_key a # seen)"
    using Cons.prems by (force simp: image_iff)
  then have "dedupe_loop (dedupe_key a # seen) ds = ds"
    using Cons.IH Cons.prems(1) by simp
  then show ?case using Cons.prems(2) by simp
qed

lemma dedupe_deals_idem: "dedupe_deals an (dedupe_deals an ds) = dedupe_deals an ds"
  by (simp add: dedupe_deals_def dedupe_loop_fixed dedupe_loop_distinct)

subsection \<open>The results of the scoring loop and of the selection\<close>

lemma is_priority_make_scored: "is_priority (make_scored an d e s) = is_priority_deal an d"
  by (simp add: make_scored_def split: prod.splits)

lemma engagement_make_scored: "engagement_score (make_scored an d e s) = s"
  by (simp add: make_scored_def split: prod.splits)

lemma scoring_loop_copies:
  "scoring_loop an ds = Some (sc, pr) \<Longrightarrow>
   list_all2 (is_scored_copy an)
     (filter (\<lambda>d. \<not> should_exclude an (apply_multibuy_overrides d) \<and> is_priority_deal an d) ds) pr \<and>
   list_all2 (is_scored_copy an)
     (filter (\<lambda>d. \<not> should_exclude an (apply_multibuy_overrides d) \<and> \<not> is_priority_deal an d) ds) sc"
proof (induction ds arbitrary: sc pr)
  case Nil
  then show ?case by simp
next
  case (Cons d ds)
  show ?case
  proof (cases "should_exclude an (apply_multibuy_overrides d)")
    case True
    then show ?thesis using Cons by simp
  next
    case False
    from Cons.prems False obtain s sc' pr' where
      s: "calculate_total_score an (apply_multibuy_overrides d) = Some s" and
      rest: "scoring_loop an ds = Some (sc', pr')" and
      res: "if is_priority_deal an d
            then sc = sc' \<and> pr = make_scored an d (apply_multibuy_overrides d) s # pr'
            else sc = make_scored an d (apply_multibuy_overrides d) s # sc' \<and> pr = pr'"
      by (auto simp: Let_def is_priority_make_scored split: option.splits if_splits)
    have c: "is_scored_copy an d (make_scored an d (apply_multibuy_overrides d) s)"
      by (simp add: is_scored_copy_def s)
    from Cons.IH [OF rest] res c False show ?thesis by (auto split: if_splits)
  qed
qed

lemma backfill_length:
  "int (length (backfill ids r ds added)) \<le> max r (int (length added))"
proof (induction ds arbitrary: added)
  case Nil
  show ?case by simp
next
  case (Cons a ds)
  show ?case using Cons.IH [of added] Cons.IH [of "added @ [a]"] by auto
qed

lemma backfill_set: "set (backfill ids r ds added) \<subseteq> set added \<union> set ds"
proof (induction ds arbitrary: added)
  case Nil
  show ?case by simp
next
  case (Cons a ds)
  show ?case using Cons.IH [of added] Cons.IH [of "added @ [a]"] by auto
qed

lemma py_take_Nil: "py_take n [] = []"
  by (simp add: py_take_def)

lemma added_length:
  assumes "alloc_ok g al"
  shows "int (length (concat (map (\<lambda>c. py_take (al c) (g c)) categories))) \<le> allocated_total al"
proof -
  have "\<And>c. c \<in> set categories \<Longrightarrow> int (length (py_take (al c) (g c))) \<le> al c"
    using assms by (simp add: alloc_ok_def py_take_length)
  then show ?thesis
    by (simp add: categories_def allocated_total_def add_mono)
qed

lemma added_set:
  "set (concat (map (\<lambda>c. py_take (al c) (filter (\<lambda>d. category_group d = c) S)) categories)) \<subseteq> set S"
  using set_py_take by fastforce

lemma analyze_deals_shape:
  "\<exists>sc0 pr0 r.
     scoring_loop an (dedupe_deals an ds0) = Some (sc0, pr0) \<and>
     analyze_deals an ds0 top_n bal = Some r \<and>
     ((r = [] \<and> pr0 = []) \<or>
      (top_n \<le> int (length pr0) \<and> r = py_take top_n (sort_key tie_break_key pr0)) \<or>
      (int (length pr0) < top_n \<and>
       (\<exists>added. set added \<subseteq> set sc0 \<and> int (length added) \<le> top_n - int (length pr0) \<and>
          (r = sort_key tie_break_key pr0 @ added \<or>
           r = sort_key tie_break_key (sort_key tie_break_key pr0 @ added)))))"
proof -
  obtain sc0 pr0 where loop: "scoring_loop an (dedupe_deals an ds0) = Some (sc0, pr0)"
    using scoring_loop_defined by blast
  let ?P = "sort_key tie_break_key pr0"
  let ?S = "sort_key tie_break_key sc0"
  let ?rem = "top_n - int (length pr0)"
  let ?balance = "case bal of None \<Rightarrow> balance_categories (config an) | Some b \<Rightarrow> b"
  show ?thesis
  proof (cases "dedupe_deals an ds0 = []")
    case True
    then have "pr0 = []" using loop by simp
    moreover have "analyze_deals an ds0 top_n bal = Some []"
      using True by (simp add: analyze_deals_def)
    ultimately show ?thesis using loop by blast
  next
    case nonempty: False
    show ?thesis
    proof (cases "sc0 = [] \<and> pr0 = []")
      case True
      then have "analyze_deals an ds0 top_n bal = Some []"
        using nonempty loop by (simp add: analyze_deals_def dedupe_deals_idem)
      then show ?thesis using loop True by blast
    next
      case some: False
      show ?thesis
      proof (cases "top_n \<le> int (length pr0)")
        case True
        have "analyze_deals an ds0 top_n bal = Some (py_take top_n ?P)"
          using nonempty loop some True
          by (auto simp: analyze_deals_def dedupe_deals_idem Let_def)
        then show ?thesis using loop True by blast
      next
        case False
        then have lt: "int (length pr0) < top_n" and rem: "0 \<le> ?rem" by auto
        show ?thesis
        proof (cases ?balance)
          case nb: False
          let ?added = "py_take ?rem ?S"
          have la: "int (length ?added) \<le> ?rem" using rem by (rule py_take_length)
          have sa: "set ?added \<subseteq> set sc0" using set_py_take [of ?rem ?S] by simp
          have "int (length (?P @ ?added)) \<le> top_n" using la by simp
          then have "py_take top_n (?P @ ?added) = ?P @ ?added" by (rule py_take_all)
          moreover have "analyze_deals an ds0 top_n bal = Some (py_take top_n (?P @ ?added))"
            using nonempty loop some False nb
            by (auto simp: analyze_deals_def dedupe_deals_idem Let_def)
          ultimately have "analyze_deals an ds0 top_n bal = Some (?P @ ?added)" by simp
          then show ?thesis using loop lt la sa by blast
        next
          case b: True
          let ?g = "\<lambda>c. filter (\<lambda>d. category_group d = c) ?S"
          obtain al where al: "balanced_allocations ?g (\<lambda>c. int (length (?g c))) ?rem = Some al"
            "alloc_ok ?g al" "allocated_total al \<le> ?rem"
            using balanced_allocations_ok [OF rem, of ?g] by blast
          let ?first = "concat (map (\<lambda>c. py_take (al c) (?g c)) categories)"
          let ?added = "if int (length ?first) < ?rem
             then backfill (map (\<lambda>d. deal_id (deal_copy d)) ?first) ?rem ?S ?first else ?first"
          have l0: "int (length ?first) \<le> ?rem"
            using added_length [OF al(2)] al(3) by simp
          have s0: "set ?first \<subseteq> set ?S" by (rule added_set)
          have la: "int (length ?added) \<le> ?rem"
            using l0 backfill_length [of "map (\<lambda>d. deal_id (deal_copy d)) ?first" ?rem ?S ?first]
            by auto
          have sb: "set (backfill (map (\<lambda>d. deal_id (deal_copy d)) ?first) ?rem ?S ?first) \<subseteq> set ?S"
            using s0 backfill_set [of "map (\<lambda>d. deal_id (deal_copy d)) ?first" ?rem ?S ?first]
            by blast
          have "set ?added \<subseteq> set ?S"
          proof (cases "int (length ?first) < ?rem")
            case True
            then show ?thesis using sb by (simp only: if_True)
          next
            case False
            then show ?thesis using s0 by (simp only: if_False)
          qed
          then have sa: "set ?added \<subseteq> set sc0" by (simp only: set_sort)
          have "int (length (sort_key tie_break_key (?P @ ?added))) \<le> top_n"
            using la by simp
          then have "py_take top_n (sort_key tie_break_key (?P @ ?added))
              = sort_key tie_break_key (?P @ ?added)"
            by (rule py_take_all)
          moreover have "analyze_deals an ds0 top_n bal
              = Some (py_take top_n (sort_key tie_break_key (?P @ ?added)))"
            using nonempty loop some False b al(1)
            by (auto simp: analyze_deals_def dedupe_deals_idem Let_def)
          ultimately have "analyze_deals an ds0 top_n bal
              = Some (sort_key tie_break_key (?P @ ?added))"
            by simp
          then show ?thesis using loop lt la sa by blast
        qed
      qed
    qed
  qed
qed

end
